theory Spec2Isabelle
  imports Complex_Main
begin

section \<open>Errors and tensors\<close>

text \<open>
  The exceptions of Python and of the tensor library that the modelled functions can raise.
  Every raise of the source is a branch \<open>Inl e\<close> of the model.
\<close>

datatype error = TypeError | IndexError | ValueError | RuntimeError

definition bind_err :: "error + 'a \<Rightarrow> ('a \<Rightarrow> error + 'b) \<Rightarrow> error + 'b" where
  "bind_err m f = (case m of Inl e \<Rightarrow> Inl e | Inr x \<Rightarrow> f x)"

fun map_err :: "('a \<Rightarrow> error + 'b) \<Rightarrow> 'a list \<Rightarrow> error + 'b list" where
  "map_err f [] = Inr []"
| "map_err f (x # xs) =
     bind_err (f x) (\<lambda>y. bind_err (map_err f xs) (\<lambda>ys. Inr (y # ys)))"

text \<open>
  Floating-point numbers are modelled by the reals; the section on floating-point values
  below adds NaN and the infinities for the forward pass of the discriminator. A tensor of shape \<open>(N, d)\<close> is the list
  of its \<open>N\<close> rows; a tensor of shape \<open>(N, 1)\<close> or \<open>(N,)\<close> is the list of its \<open>N\<close> entries.
  Where the difference between \<open>(N, 1)\<close> and \<open>(N,)\<close> changes what an operation computes
  (broadcasting), the operation of the model says which shapes it stands for.
\<close>

type_synonym tensor2 = "real list list"
type_synonym tensor1 = "real list"

definition mean :: "real list \<Rightarrow> real" where
  "mean xs = sum_list xs / real (length xs)"

definition relu :: "real \<Rightarrow> real" where
  "relu x = max 0 x"

definition sigmoid :: "real \<Rightarrow> real" where
  "sigmoid x = 1 / (1 + exp (- x))"

definition clip :: "real \<Rightarrow> real \<Rightarrow> real \<Rightarrow> real" where
  \<comment> \<open>\<open>torch.clip(x, lo, hi)\<close>\<close>
  "clip x lo hi = min (max x lo) hi"

definition cat_dim1 :: "'a list list \<Rightarrow> 'a list list \<Rightarrow> error + 'a list list" where
  \<comment> \<open>\<open>torch.cat([a, b], dim=1)\<close>: the row counts must agree\<close>
  "cat_dim1 a b = (if length a = length b then Inr (map2 (@) a b) else Inl RuntimeError)"

section \<open>Discriminator\<close>

text \<open>
  \<open>nn.Linear(n_in, n_out)\<close> holds a weight matrix of \<open>n_out\<close> rows of length \<open>n_in\<close> and a bias
  of length \<open>n_out\<close>; applied to a row \<open>x\<close> it returns \<open>W x + b\<close> and raises when the length
  of \<open>x\<close> is not \<open>n_in\<close>. The sizes the constructor passes (256 hidden units, one output
  unit for \<open>fc3\<close>) are the shapes of these values.
\<close>

record Linear =
  lin_weight :: "real list list"
  lin_bias :: "real list"

definition dot :: "real list \<Rightarrow> real list \<Rightarrow> real" where
  "dot xs ys = sum_list (map2 (*) xs ys)"

definition Linear_forward :: "Linear \<Rightarrow> real list \<Rightarrow> error + real list" where
  "Linear_forward l x =
     (if list_all (\<lambda>row. length row = length x) (lin_weight l)
      then Inr (map2 (\<lambda>row b. dot row x + b) (lin_weight l) (lin_bias l))
      else Inl RuntimeError)"

record Discriminator =
  fc1 :: Linear
  fc2 :: Linear
  fc3 :: Linear

definition Discriminator_row :: "Discriminator \<Rightarrow> real list \<Rightarrow> error + real list" where
  \<comment> \<open>lines 393--396 on one row of \<open>state_action\<close>\<close>
  "Discriminator_row D state_action =
     bind_err (Linear_forward (fc1 D) state_action) (\<lambda>d1.
     bind_err (Linear_forward (fc2 D) (map relu d1)) (\<lambda>d2.
     bind_err (Linear_forward (fc3 D) (map relu d2)) (\<lambda>d3.
     Inr (map (\<lambda>z. clip (sigmoid z) (1/10) (9/10)) d3))))"

definition Discriminator_forward :: "Discriminator \<Rightarrow> tensor2 \<Rightarrow> tensor2 \<Rightarrow> error + tensor1" where
  \<comment> \<open>\<open>Discriminator.forward(state, action)\<close>; the result has shape \<open>(B, 1)\<close>, \<open>fc3\<close> having
      one output unit\<close>
  "Discriminator_forward D state action =
     bind_err (cat_dim1 state action) (\<lambda>state_action.
     bind_err (map_err (Discriminator_row D) state_action) (\<lambda>d. Inr (concat d)))"

definition Discriminator_call :: "Discriminator \<Rightarrow> tensor2 list \<Rightarrow> error + tensor1" where
  \<comment> \<open>\<open>self.discriminator(*args)\<close>: Python binds the positional arguments to
      \<open>forward(self, state, action)\<close> and raises \<open>TypeError\<close> when their number is not two\<close>
  "Discriminator_call D args =
     (case args of
        [state, action] \<Rightarrow> Discriminator_forward D state action
      | _ \<Rightarrow> Inl TypeError)"

section \<open>Discriminator on floating-point values\<close>

text \<open>
  The tensors of the program hold floating-point numbers, which include NaN and the two
  infinities. \<open>fl\<close> adds them to the reals, with the arithmetic of IEEE 754 on them: NaN
  propagates, \<open>inf - inf\<close> and \<open>0 * inf\<close> are NaN. Rounding, signed zeros and the overflow of
  finite values to an infinity are not modelled. \<open>F.relu\<close>, \<open>torch.sigmoid\<close> and \<open>torch.clip\<close>
  return NaN on NaN. The real-valued \<open>Discriminator_forward\<close> above is this forward pass on
  finite values.
\<close>

datatype fl = NaN | NegInf | PosInf | Fin real

fun fl_add :: "fl \<Rightarrow> fl \<Rightarrow> fl" where
  "fl_add NaN y = NaN"
| "fl_add x NaN = NaN"
| "fl_add PosInf NegInf = NaN"
| "fl_add NegInf PosInf = NaN"
| "fl_add PosInf y = PosInf"
| "fl_add x PosInf = PosInf"
| "fl_add NegInf y = NegInf"
| "fl_add x NegInf = NegInf"
| "fl_add (Fin a) (Fin b) = Fin (a + b)"

fun fl_mul :: "fl \<Rightarrow> fl \<Rightarrow> fl" where
  "fl_mul NaN y = NaN"
| "fl_mul x NaN = NaN"
| "fl_mul (Fin a) (Fin b) = Fin (a * b)"
| "fl_mul PosInf (Fin b) = (if b = 0 then NaN else if 0 < b then PosInf else NegInf)"
| "fl_mul NegInf (Fin b) = (if b = 0 then NaN else if 0 < b then NegInf else PosInf)"
| "fl_mul (Fin a) PosInf = (if a = 0 then NaN else if 0 < a then PosInf else NegInf)"
| "fl_mul (Fin a) NegInf = (if a = 0 then NaN else if 0 < a then NegInf else PosInf)"
| "fl_mul PosInf PosInf = PosInf"
| "fl_mul PosInf NegInf = NegInf"
| "fl_mul NegInf PosInf = NegInf"
| "fl_mul NegInf NegInf = PosInf"

fun fl_relu :: "fl \<Rightarrow> fl" where
  "fl_relu NaN = NaN"
| "fl_relu NegInf = Fin 0"
| "fl_relu PosInf = PosInf"
| "fl_relu (Fin a) = Fin (relu a)"

fun fl_sigmoid :: "fl \<Rightarrow> fl" where
  "fl_sigmoid NaN = NaN"
| "fl_sigmoid NegInf = Fin 0"
| "fl_sigmoid PosInf = Fin 1"
| "fl_sigmoid (Fin a) = Fin (sigmoid a)"

fun fl_clip :: "fl \<Rightarrow> real \<Rightarrow> real \<Rightarrow> fl" where
  "fl_clip NaN lo hi = NaN"
| "fl_clip NegInf lo hi = Fin lo"
| "fl_clip PosInf lo hi = Fin hi"
| "fl_clip (Fin a) lo hi = Fin (clip a lo hi)"

record Linear_fl =
  lin_weight_fl :: "fl list list"
  lin_bias_fl :: "fl list"

definition fl_dot :: "fl list \<Rightarrow> fl list \<Rightarrow> fl" where
  "fl_dot xs ys = foldr fl_add (map2 fl_mul xs ys) (Fin 0)"

definition Linear_forward_fl :: "Linear_fl \<Rightarrow> fl list \<Rightarrow> error + fl list" where
  "Linear_forward_fl l x =
     (if list_all (\<lambda>row. length row = length x) (lin_weight_fl l)
      then Inr (map2 (\<lambda>row b. fl_add (fl_dot row x) b) (lin_weight_fl l) (lin_bias_fl l))
      else Inl RuntimeError)"

record Discriminator_fl =
  fc1_fl :: Linear_fl
  fc2_fl :: Linear_fl
  fc3_fl :: Linear_fl

definition Discriminator_row_fl :: "Discriminator_fl \<Rightarrow> fl list \<Rightarrow> error + fl list" where
  \<comment> \<open>lines 393--396 on one row of \<open>state_action\<close>\<close>
  "Discriminator_row_fl D state_action =
     bind_err (Linear_forward_fl (fc1_fl D) state_action) (\<lambda>d1.
     bind_err (Linear_forward_fl (fc2_fl D) (map fl_relu d1)) (\<lambda>d2.
     bind_err (Linear_forward_fl (fc3_fl D) (map fl_relu d2)) (\<lambda>d3.
     Inr (map (\<lambda>z. fl_clip (fl_sigmoid z) (1/10) (9/10)) d3))))"

definition Discriminator_forward_fl ::
  "Discriminator_fl \<Rightarrow> fl list list \<Rightarrow> fl list list \<Rightarrow> error + fl list" where
  \<comment> \<open>\<open>Discriminator.forward(state, action)\<close>\<close>
  "Discriminator_forward_fl D state action =
     bind_err (cat_dim1 state action) (\<lambda>state_action.
     bind_err (map_err (Discriminator_row_fl D) state_action) (\<lambda>d. Inr (concat d)))"

definition fl_Linear :: "Linear \<Rightarrow> Linear_fl" where
  "fl_Linear l = \<lparr>lin_weight_fl = map (map Fin) (lin_weight l), lin_bias_fl = map Fin (lin_bias l)\<rparr>"

definition fl_Discriminator :: "Discriminator \<Rightarrow> Discriminator_fl" where
  \<comment> \<open>a discriminator with finite parameters\<close>
  "fl_Discriminator D =
     \<lparr>fc1_fl = fl_Linear (fc1 D), fc2_fl = fl_Linear (fc2 D), fc3_fl = fl_Linear (fc3 D)\<rparr>"

section \<open>Discriminator loss\<close>

definition d_loss :: "bool \<Rightarrow> real \<Rightarrow> tensor1 \<Rightarrow> tensor1 \<Rightarrow> real" where
  \<comment> \<open>lines 476--483 of \<open>train_discriminator\<close>; \<open>d_e\<close> and \<open>d_s\<close> have shape \<open>(B, 1)\<close>\<close>
  "d_loss no_pu_learning eta d_e d_s =
     (if no_pu_learning then
        (let d_loss_e = map (\<lambda>d. - ln d) d_e;
             d_loss_s = map (\<lambda>d. - ln (1 - d)) d_s
         in mean (map2 (+) d_loss_e d_loss_s))
      else
        (let d_loss_e = map (\<lambda>d. - ln d) d_e;
             d_loss_s = map2 (+) (map (\<lambda>d. - ln (1 - d) / eta) d_s) (map (\<lambda>d. ln (1 - d)) d_e)
         in mean (map2 (+) d_loss_e d_loss_s)))"

definition d_loss_standard_spec :: "nat \<Rightarrow> (nat \<Rightarrow> real) \<Rightarrow> (nat \<Rightarrow> real) \<Rightarrow> real" where
  \<comment> \<open>the specification's \<open>mean(-log(d_e) - log(1-d_s))\<close> over a batch of \<open>B\<close> samples\<close>
  "d_loss_standard_spec B d_e d_s = (\<Sum>i<B. - ln (d_e i) - ln (1 - d_s i)) / real B"

definition d_loss_pu_spec :: "nat \<Rightarrow> real \<Rightarrow> (nat \<Rightarrow> real) \<Rightarrow> (nat \<Rightarrow> real) \<Rightarrow> real" where
  \<comment> \<open>the specification's \<open>mean(-log(d_e) - log(1-d_s)/eta + log(1-d_e))\<close>\<close>
  "d_loss_pu_spec B eta d_e d_s =
     (\<Sum>i<B. - ln (d_e i) - ln (1 - d_s i) / eta + ln (1 - d_e i)) / real B"

section \<open>ReplayBuffer\<close>

text \<open>
  The columns of the buffer are tensors whose first axis is the row index. \<open>reward\<close>,
  \<open>not_done\<close>, \<open>flag\<close>, \<open>weight\<close> and \<open>timeout\<close> have shape \<open>(N, 1)\<close>.
\<close>

record ReplayBuffer =
  max_size :: nat
  ptr :: nat
  size_buf :: nat
  state :: tensor2
  action :: tensor2
  next_state :: tensor2
  reward :: tensor1
  not_done :: tensor1
  flag :: tensor1
  weight :: tensor1
  timeout :: tensor1

definition ReplayBuffer_init :: "nat \<Rightarrow> nat \<Rightarrow> nat \<Rightarrow> ReplayBuffer" where
  \<comment> \<open>\<open>ReplayBuffer.__init__(state_dim, action_dim, device, max_size)\<close>\<close>
  "ReplayBuffer_init state_dim action_dim max_sz =
     \<lparr>max_size = max_sz, ptr = 0, size_buf = 0,
      state = replicate max_sz (replicate state_dim 0),
      action = replicate max_sz (replicate action_dim 0),
      next_state = replicate max_sz (replicate state_dim 0),
      reward = replicate max_sz 0,
      not_done = replicate max_sz 0,
      flag = replicate max_sz 0,
      weight = replicate max_sz 1,
      timeout = replicate max_sz 1\<rparr>"

definition randint :: "nat \<Rightarrow> nat \<Rightarrow> int \<Rightarrow> (nat \<Rightarrow> nat) \<Rightarrow> error + nat list" where
  \<comment> \<open>\<open>torch.randint(low, high, (n,))\<close>: raises for a negative extent \<open>n\<close> and unless
      \<open>low < high\<close>; the \<open>j\<close>-th draw is the generator's \<open>j\<close>-th word reduced to the range\<close>
  "randint low high n gen =
     (if n < 0 then Inl RuntimeError
      else if low < high then Inr (map (\<lambda>j. low + gen j mod (high - low)) [0..<nat n])
      else Inl RuntimeError)"

definition index_rows :: "'a list \<Rightarrow> nat list \<Rightarrow> error + 'a list" where
  \<comment> \<open>\<open>col[ind]\<close> for an index tensor \<open>ind\<close>\<close>
  "index_rows col ind =
     (if list_all (\<lambda>i. i < length col) ind then Inr (map ((!) col) ind) else Inl IndexError)"

type_synonym batch =
  "tensor2 \<times> tensor2 \<times> tensor2 \<times> tensor1 \<times> tensor1 \<times> tensor1 \<times> tensor1 \<times> tensor1"

definition sample :: "ReplayBuffer \<Rightarrow> int \<Rightarrow> (nat \<Rightarrow> nat) \<Rightarrow> error + batch" where
  "sample buf batch_size gen =
     bind_err (randint 0 (size_buf buf) batch_size gen) (\<lambda>ind.
     bind_err (index_rows (state buf) ind) (\<lambda>s.
     bind_err (index_rows (action buf) ind) (\<lambda>a.
     bind_err (index_rows (next_state buf) ind) (\<lambda>ns.
     bind_err (index_rows (reward buf) ind) (\<lambda>r.
     bind_err (index_rows (not_done buf) ind) (\<lambda>nd.
     bind_err (index_rows (flag buf) ind) (\<lambda>f.
     bind_err (index_rows (weight buf) ind) (\<lambda>w.
     bind_err (index_rows (timeout buf) ind) (\<lambda>t.
     Inr (s, a, ns, r, nd, f, w, t))))))))))"

text \<open>
  The dataset dictionaries, one field for each key: the raw dataset, the dataset that the
  trajectory splitters return (with \<open>next_observations\<close>), and the dataset that
  \<open>convert_d4rl\<close> reads (with \<open>flag\<close>, which \<open>get_datasets\<close> adds). The arrays are rectangular.
\<close>

record dataset_raw =
  observations :: tensor2
  actions :: tensor2
  rewards :: tensor1
  terminals :: "bool list"
  timeouts :: "bool list"

record dataset_split = dataset_raw +
  next_observations :: tensor2

record d4rl_dataset = dataset_split +
  flags :: "bool list"

definition convert_d4rl :: "ReplayBuffer \<Rightarrow> d4rl_dataset \<Rightarrow> ReplayBuffer" where
  "convert_d4rl buf dataset =
     buf\<lparr>state := observations dataset,
         action := actions dataset,
         next_state := next_observations dataset,
         reward := rewards dataset,
         not_done := map (\<lambda>t. 1 - of_bool t) (terminals dataset),
         flag := map of_bool (flags dataset),
         timeout := map of_bool (timeouts dataset),
         weight := map (\<lambda>_. 1) (rewards dataset),
         size_buf := length (observations dataset)\<rparr>"

definition add_transitions :: "ReplayBuffer \<Rightarrow> ReplayBuffer \<Rightarrow> ReplayBuffer" where
  "add_transitions buf replay_buffer =
     buf\<lparr>state := state buf @ state replay_buffer,
         action := action buf @ action replay_buffer,
         next_state := next_state buf @ next_state replay_buffer,
         reward := reward buf @ reward replay_buffer,
         not_done := not_done buf @ not_done replay_buffer,
         flag := flag buf @ flag replay_buffer,
         weight := weight buf @ weight replay_buffer,
         timeout := timeout buf @ timeout replay_buffer,
         size_buf := length (state buf @ state replay_buffer)\<rparr>"

text \<open>
  The invariant of the specification: every column has exactly \<open>size\<close> rows; and the
  weaker condition that \<open>sample\<close> needs: every column has at least \<open>size\<close> rows.
\<close>

definition columns_eq_size :: "ReplayBuffer \<Rightarrow> bool" where
  "columns_eq_size buf \<longleftrightarrow>
     length (state buf) = size_buf buf \<and> length (action buf) = size_buf buf \<and>
     length (next_state buf) = size_buf buf \<and> length (reward buf) = size_buf buf \<and>
     length (not_done buf) = size_buf buf \<and> length (flag buf) = size_buf buf \<and>
     length (weight buf) = size_buf buf \<and> length (timeout buf) = size_buf buf"

definition columns_ge_size :: "ReplayBuffer \<Rightarrow> bool" where
  "columns_ge_size buf \<longleftrightarrow>
     size_buf buf \<le> length (state buf) \<and> size_buf buf \<le> length (action buf) \<and>
     size_buf buf \<le> length (next_state buf) \<and> size_buf buf \<le> length (reward buf) \<and>
     size_buf buf \<le> length (not_done buf) \<and> size_buf buf \<le> length (flag buf) \<and>
     size_buf buf \<le> length (weight buf) \<and> size_buf buf \<le> length (timeout buf)"

section \<open>One step of \<open>train_discriminator\<close>\<close>

definition train_discriminator_step ::
  "Discriminator \<Rightarrow> bool \<Rightarrow> real \<Rightarrow> ReplayBuffer \<Rightarrow> ReplayBuffer \<Rightarrow> int
     \<Rightarrow> (nat \<Rightarrow> nat) \<Rightarrow> (nat \<Rightarrow> nat) \<Rightarrow> error + real" where
  \<comment> \<open>lines 470--483: the loss of one iteration, for the current parameters \<open>D\<close>; the
      optimizer update that follows it is not modelled\<close>
  "train_discriminator_step D no_pu_learning eta replay_buffer_e replay_buffer_s batch_size gen_e gen_s =
     bind_err (sample replay_buffer_e batch_size gen_e) (\<lambda>(state_e, action_e, rest_e).
     bind_err (sample replay_buffer_s batch_size gen_s) (\<lambda>(state_s, action_s, rest_s).
     bind_err (Discriminator_call D [state_e, action_e]) (\<lambda>d_e.
     bind_err (Discriminator_call D [state_s, action_s]) (\<lambda>d_s.
     Inr (d_loss no_pu_learning eta d_e d_s)))))"

section \<open>\<open>select_data\<close>\<close>

definition broadcast2 :: "('a \<Rightarrow> 'b \<Rightarrow> 'c) \<Rightarrow> 'a list \<Rightarrow> 'b list \<Rightarrow> error + 'c list" where
  \<comment> \<open>an elementwise operation on two tensors whose first axes have to agree or to be 1\<close>
  "broadcast2 f xs ys =
     (if length xs = length ys then Inr (map2 f xs ys)
      else if length ys = 1 then Inr (map (\<lambda>x. f x (hd ys)) xs)
      else if length xs = 1 then Inr (map (f (hd xs)) ys)
      else Inl RuntimeError)"

definition inplace_broadcast :: "('a \<Rightarrow> 'b \<Rightarrow> 'a) \<Rightarrow> 'a list \<Rightarrow> 'b list \<Rightarrow> error + 'a list" where
  \<comment> \<open>an in-place operation \<open>xs op= ys\<close>: \<open>ys\<close> has to broadcast to the shape of \<open>xs\<close>\<close>
  "inplace_broadcast f xs ys =
     (if length ys = length xs then Inr (map2 f xs ys)
      else if length ys = 1 then Inr (map (\<lambda>x. f x (hd ys)) xs)
      else Inl RuntimeError)"

definition set_last :: "'a list \<Rightarrow> 'a \<Rightarrow> error + 'a list" where
  \<comment> \<open>\<open>xs[-1] = v\<close>\<close>
  "set_last xs v = (if xs = [] then Inl IndexError else Inr (xs[length xs - 1 := v]))"

definition where_plus_one :: "bool list \<Rightarrow> nat list" where
  \<comment> \<open>\<open>torch.where(c)[0] + 1\<close> for \<open>c\<close> of shape \<open>(N, 1)\<close>: the row indices, ascending\<close>
  "where_plus_one c = map Suc (filter (\<lambda>i. c ! i) [0..<length c])"

definition slice_fill :: "'a list \<Rightarrow> nat \<Rightarrow> nat \<Rightarrow> 'a \<Rightarrow> 'a list" where
  \<comment> \<open>\<open>xs[a:b] = v\<close> for \<open>0 \<le> a\<close>, \<open>0 \<le> b\<close>\<close>
  "slice_fill xs a b v = map (\<lambda>i. if a \<le> i \<and> i < b then v else xs ! i) [0..<length xs]"

definition mask_rows :: "'a list \<Rightarrow> bool list \<Rightarrow> error + 'a list" where
  \<comment> \<open>\<open>col[mask, :]\<close>: the mask must have one entry for each row. (For a buffer of one row
      \<open>torch.squeeze\<close> makes the mask 0-dimensional and the result gets a leading axis of
      length 1 or 0 in front of the rows; the model keeps the rows.)\<close>
  "mask_rows col msk =
     (if length msk = length col then Inr (map fst (filter snd (zip col msk)))
      else Inl IndexError)"

definition ge_bar :: "tensor1 \<Rightarrow> real \<Rightarrow> bool list" where
  \<comment> \<open>\<open>torch.squeeze(d >= bar)\<close> for \<open>d\<close> of shape \<open>(N, 1)\<close>\<close>
  "ge_bar d bar = map (\<lambda>x. bar \<le> x) d"

definition anchor_done :: "ReplayBuffer \<Rightarrow> error + ReplayBuffer \<times> nat list" where
  \<comment> \<open>lines 498--499: the buffer with the last \<open>not_done\<close> forced to 0, and \<open>done\<close>\<close>
  "anchor_done replay_buffer_s =
     bind_err (set_last (not_done replay_buffer_s) 0) (\<lambda>nd.
     let buf = replay_buffer_s\<lparr>not_done := nd\<rparr> in
     bind_err (broadcast2 (\<or>) (map (\<lambda>x. x = 0) (not_done buf)) (map (\<lambda>x. x = 1) (timeout buf)))
       (\<lambda>c. Inr (buf, where_plus_one c)))"

fun clear_starts :: "nat \<Rightarrow> bool list \<Rightarrow> nat \<Rightarrow> nat list \<Rightarrow> bool list" where
  \<comment> \<open>lines 509--512: the loop over \<open>done\<close>, from the current \<open>index\<close> and \<open>start\<close>\<close>
  "clear_starts k index start [] = index"
| "clear_starts k index start (end_ix # done_ix) =
     clear_starts k (slice_fill index start (min end_ix (start + k + 1)) False) end_ix done_ix"

definition ior_shifted :: "bool list \<Rightarrow> bool list \<Rightarrow> nat \<Rightarrow> error + bool list" where
  \<comment> \<open>line 513: \<open>mask[:-(k + 1)] |= index[k + 1:]\<close>\<close>
  "ior_shifted msk index k =
     (let n = length msk - (k + 1) in
      bind_err (inplace_broadcast (\<or>) (take n msk) (drop (k + 1) index))
        (\<lambda>r. Inr (r @ drop n msk)))"

type_synonym loop_state = "bool list \<times> ReplayBuffer \<times> real"

definition rollback_iter ::
  "Discriminator \<Rightarrow> real \<Rightarrow> real \<Rightarrow> nat list \<Rightarrow> nat \<Rightarrow> loop_state \<Rightarrow> error + loop_state" where
  \<comment> \<open>lines 508--515: the body of the loop for one \<open>k\<close>, on \<open>mask\<close>, the buffer and
      \<open>weight_decay\<close>. \<open>torch.squeeze\<close> of a one-row tensor is 0-dimensional, and slicing it
      raises \<open>IndexError\<close>.\<close>
  "rollback_iter D bar decay done_ix k = (\<lambda>(msk, buf, weight_decay).
     bind_err (Discriminator_call D [state buf, action buf]) (\<lambda>d.
     let index = ge_bar d bar in
     if length index = 1 \<or> length msk = 1 then Inl IndexError
     else
       let index = clear_starts k index 0 done_ix in
       bind_err (ior_shifted msk index k) (\<lambda>msk.
       bind_err (broadcast2 (\<and>) msk (map (\<lambda>w. w < weight_decay) (weight buf))) (\<lambda>sel.
       if length sel \<noteq> length (weight buf) then Inl IndexError
       else Inr (msk,
                 buf\<lparr>weight := map2 (\<lambda>w s. if s then weight_decay else w) (weight buf) sel\<rparr>,
                 weight_decay * decay)))))"

fun rollback_loop ::
  "Discriminator \<Rightarrow> real \<Rightarrow> real \<Rightarrow> nat list \<Rightarrow> nat \<Rightarrow> loop_state \<Rightarrow> error + loop_state" where
  \<comment> \<open>\<open>for k in range(0, n)\<close>: the state after the iterations \<open>k = 0, ..., n - 1\<close>\<close>
  "rollback_loop D bar decay done_ix 0 s = Inr s"
| "rollback_loop D bar decay done_ix (Suc n) s =
     bind_err (rollback_loop D bar decay done_ix n s) (rollback_iter D bar decay done_ix n)"

definition select_data_from_mask ::
  "Discriminator \<Rightarrow> ReplayBuffer \<Rightarrow> bool list \<Rightarrow> real \<Rightarrow> nat \<Rightarrow> real \<Rightarrow> real \<Rightarrow> error + ReplayBuffer" where
  \<comment> \<open>lines 498--525 of \<open>select_data\<close>, from the value of \<open>mask\<close> after line 496\<close>
  "select_data_from_mask D replay_buffer_s msk bar rollback decay weight_init =
     bind_err (anchor_done replay_buffer_s) (\<lambda>(buf, done_ix).
     let buf = buf\<lparr>weight := map (\<lambda>w. w - 1) (weight buf)\<rparr> in
     bind_err (rollback_loop D bar decay done_ix rollback (msk, buf, weight_init))
       (\<lambda>(msk, buf, weight_decay).
     bind_err (mask_rows (state buf) msk) (\<lambda>s.
     bind_err (mask_rows (action buf) msk) (\<lambda>a.
     bind_err (mask_rows (next_state buf) msk) (\<lambda>ns.
     bind_err (mask_rows (reward buf) msk) (\<lambda>r.
     bind_err (mask_rows (not_done buf) msk) (\<lambda>nd.
     bind_err (mask_rows (flag buf) msk) (\<lambda>f.
     bind_err (mask_rows (weight buf) msk) (\<lambda>w.
     Inr (buf\<lparr>state := s, action := a, next_state := ns, reward := r, not_done := nd,
              flag := f, weight := w, size_buf := length s\<rparr>))))))))))"

definition select_data ::
  "Discriminator \<Rightarrow> ReplayBuffer \<Rightarrow> real \<Rightarrow> nat \<Rightarrow> real \<Rightarrow> real \<Rightarrow> error + ReplayBuffer" where
  \<comment> \<open>\<open>Model.select_data(replay_buffer_s, bar, rollback, decay, weight_init)\<close>; line 496
      calls the discriminator with the single argument \<open>next_state\<close>\<close>
  "select_data D replay_buffer_s bar rollback decay weight_init =
     bind_err (Discriminator_call D [next_state replay_buffer_s]) (\<lambda>d.
     select_data_from_mask D replay_buffer_s (ge_bar d bar)
       bar rollback decay weight_init)"

section \<open>\<open>train_policy\<close>\<close>

text \<open>
  The fields of \<open>Model\<close> that \<open>train_policy\<close> reads. An \<open>Actor\<close> is represented by its
  \<open>get_log_density\<close>, a function from a batch of states and a batch of actions to the
  log-densities, of shape \<open>(B, action_dim)\<close>. \<open>log_alpha\<close> is the value of the \<open>Scalar\<close>
  parameter.
\<close>

record Model =
  policy :: "tensor2 \<Rightarrow> tensor2 \<Rightarrow> tensor2"
  policy_e :: "tensor2 \<Rightarrow> tensor2 \<Rightarrow> tensor2"
  log_policy_e :: "tensor2 option"
  automatic_alpha_tuning :: bool
  alpha :: real
  log_alpha :: real
  epsilon :: real
  total_it :: nat

definition sum_dim1 :: "tensor2 \<Rightarrow> tensor1" where
  \<comment> \<open>\<open>torch.sum(t, 1)\<close> for \<open>t\<close> of shape \<open>(B, d)\<close>: shape \<open>(B,)\<close>\<close>
  "sum_dim1 t = map sum_list t"

definition mul_vec_col :: "tensor1 \<Rightarrow> tensor1 \<Rightarrow> tensor2" where
  \<comment> \<open>\<open>v * c\<close> for \<open>v\<close> of shape \<open>(n,)\<close> and \<open>c\<close> of shape \<open>(m, 1)\<close>: broadcasting aligns \<open>v\<close> as
      \<open>(1, n)\<close> and the product has shape \<open>(m, n)\<close>, with \<open>v[i] * c[j]\<close> in row \<open>j\<close>, column \<open>i\<close>\<close>
  "mul_vec_col v c = map (\<lambda>w. map (\<lambda>x. x * w) v) c"

definition mean_all :: "tensor2 \<Rightarrow> real" where
  \<comment> \<open>\<open>torch.mean\<close> of a tensor of two axes: the mean of all its entries\<close>
  "mean_all t = mean (concat t)"

definition alpha_and_alpha_loss :: "Model \<Rightarrow> tensor1 \<Rightarrow> tensor1 \<Rightarrow> real \<times> real" where
  \<comment> \<open>returns \<open>(alpha, alpha_loss)\<close>; \<open>detach\<close> does not change the value\<close>
  "alpha_and_alpha_loss M log_pi log_pi_e =
     (let alpha_loss = exp (log_alpha M) * (mean log_pi + epsilon M - mean log_pi_e);
          a = exp (log_alpha M)
      in (a, alpha_loss))"

definition train_policy ::
  "Model \<Rightarrow> ReplayBuffer \<Rightarrow> ReplayBuffer \<Rightarrow> int \<Rightarrow> (nat \<Rightarrow> nat) \<Rightarrow> (nat \<Rightarrow> nat)
     \<Rightarrow> error + Model \<times> real option \<times> real" where
  \<comment> \<open>lines 528--552: the model with \<open>total_it\<close> and \<open>alpha\<close> updated, \<open>alpha_loss\<close> (when
      automatic tuning is on) and \<open>p_loss\<close>. The optimizer updates of the parameters
      (lines 547--549 and 555--557) are not modelled. \<open>weight_s\<close> has shape \<open>(B, 1)\<close>, as every
      row of the \<open>weight\<close> column; \<open>torch.sum(log_pi_s, 1)\<close> has shape \<open>(B,)\<close>.\<close>
  "train_policy M replay_buffer_s replay_buffer_e batch_size gen_s gen_e =
     (let M = M\<lparr>total_it := total_it M + 1\<rparr> in
      bind_err (sample replay_buffer_s batch_size gen_s)
        (\<lambda>(state_s, action_s, ns_s, r_s, nd_s, f_s, weight_s, t_s).
      bind_err (sample replay_buffer_e batch_size gen_e)
        (\<lambda>(state_e, action_e, ns_e, r_e, nd_e, f_e, weight_e, t_e).
      let log_pi_s = policy M state_s action_s;
          log_pi_e = policy M state_e action_e;
          (M, alpha_loss) =
            (if automatic_alpha_tuning M then
               let log_pi_e_e = (case log_policy_e M of
                                   Some l \<Rightarrow> l
                                 | None \<Rightarrow> policy_e M state_e action_e);
                   (a, alpha_loss) = alpha_and_alpha_loss M (sum_dim1 log_pi_e) (sum_dim1 log_pi_e_e)
               in (M\<lparr>alpha := a\<rparr>, Some alpha_loss)
             else (M, None));
          p_loss = mean_all (mul_vec_col (map uminus (sum_dim1 log_pi_s)) weight_s)
                     + alpha M * mean (map uminus (sum_dim1 log_pi_e))
      in Inr (M, alpha_loss, p_loss))))"

definition p_loss_spec :: "nat \<Rightarrow> (nat \<Rightarrow> real) \<Rightarrow> (nat \<Rightarrow> real) \<Rightarrow> real \<Rightarrow> (nat \<Rightarrow> real) \<Rightarrow> real" where
  \<comment> \<open>the specification's \<open>mean(-sum(log_pi_s,dim)*weight_s) - alpha * mean(sum(log_pi_e,dim))\<close>,
      the first term weighted sample by sample; \<open>s i\<close> and \<open>e i\<close> are the summed log-densities
      of sample \<open>i\<close>, \<open>w i\<close> its weight\<close>
  "p_loss_spec B s w a e = (\<Sum>i<B. - s i * w i) / real B - a * ((\<Sum>i<B. e i) / real B)"

definition alpha_loss_spec :: "real \<Rightarrow> real \<Rightarrow> nat \<Rightarrow> (nat \<Rightarrow> real) \<Rightarrow> (nat \<Rightarrow> real) \<Rightarrow> real" where
  \<comment> \<open>the specification's \<open>alpha * (mean(log_pi_student_on_e) + epsilon -
      mean(log_pi_reference_on_e))\<close> with \<open>alpha = exp(log_alpha)\<close>\<close>
  "alpha_loss_spec la eps B e r =
     exp la * ((\<Sum>i<B. e i) / real B + eps - (\<Sum>i<B. r i) / real B)"

section \<open>Trajectory splitting\<close>

type_synonym trajs =
  "tensor2 list \<times> tensor2 list \<times> tensor2 list \<times> tensor1 list \<times> bool list list \<times> bool list list"

definition append_last :: "'a list list \<Rightarrow> 'a \<Rightarrow> 'a list list" where
  \<comment> \<open>\<open>trajs[-1].append(x)\<close>; the list of trajectories is never empty\<close>
  "append_last ts x = butlast ts @ [last ts @ [x]]"

definition split_step :: "'a dataset_raw_scheme \<Rightarrow> bool \<Rightarrow> nat \<Rightarrow> trajs \<Rightarrow> error + trajs" where
  \<comment> \<open>lines 156--172 for one \<open>i\<close>: a read past the end of an array raises \<open>IndexError\<close>.
      (\<open>return_traj\<close> is never read and is left out.)\<close>
  "split_step dataset terminate_on_end i =
     (\<lambda>(obs_traj, next_obs_traj, action_traj, reward_traj, done_traj, timeout_traj).
       if i + 1 < length (observations dataset) \<and> i < length (actions dataset) \<and>
          i < length (rewards dataset) \<and> i < length (terminals dataset) \<and>
          i < length (timeouts dataset)
       then
         let obs_traj = append_last obs_traj (observations dataset ! i);
             next_obs_traj = append_last next_obs_traj (observations dataset ! (i + 1));
             action_traj = append_last action_traj (actions dataset ! i);
             reward_traj = append_last reward_traj (rewards dataset ! i);
             done_traj = append_last done_traj (terminals dataset ! i);
             timeout_traj = append_last timeout_traj (timeouts dataset ! i);
             final_timestep = (timeouts dataset ! i \<or> terminals dataset ! i)
         in if \<not> terminate_on_end \<and> final_timestep
            then Inr (obs_traj @ [[]], next_obs_traj @ [[]], action_traj @ [[]],
                      reward_traj @ [[]], done_traj @ [[]], timeout_traj @ [[]])
            else Inr (obs_traj, next_obs_traj, action_traj, reward_traj, done_traj, timeout_traj)
       else Inl IndexError)"

fun split_loop :: "'a dataset_raw_scheme \<Rightarrow> bool \<Rightarrow> nat \<Rightarrow> trajs \<Rightarrow> error + trajs" where
  \<comment> \<open>\<open>for i in range(m)\<close>: the state after the iterations \<open>i = 0, ..., m - 1\<close>\<close>
  "split_loop dataset terminate_on_end 0 s = Inr s"
| "split_loop dataset terminate_on_end (Suc m) s =
     bind_err (split_loop dataset terminate_on_end m s) (split_step dataset terminate_on_end m)"

definition split_trajectories :: "'a dataset_raw_scheme \<Rightarrow> bool \<Rightarrow> error + trajs" where
  \<comment> \<open>lines 146--172 (and 226--252): \<open>n = dataset['rewards'].shape[0]\<close>, the loop over
      \<open>range(n - 1)\<close>\<close>
  "split_trajectories dataset terminate_on_end =
     split_loop dataset terminate_on_end (length (rewards dataset) - 1)
       ([[]], [[]], [[]], [[]], [[]], [[]])"

definition trajectory_count :: "'a dataset_raw_scheme \<Rightarrow> bool \<Rightarrow> nat" where
  \<comment> \<open>\<open>len(obs_traj)\<close> after the loop\<close>
  "trajectory_count dataset terminate_on_end =
     (case split_trajectories dataset terminate_on_end of
        Inl e \<Rightarrow> 0
      | Inr (obs_traj, rest) \<Rightarrow> length obs_traj)"

definition slice_to :: "'a list \<Rightarrow> int \<Rightarrow> 'a list" where
  \<comment> \<open>Python's \<open>xs[:m]\<close>: a bound past the end is clamped, a negative bound counts from the end\<close>
  "slice_to xs m = (if 0 \<le> m then take (nat m) xs else take (length xs - nat (- m)) xs)"

definition slice_last :: "'a list \<Rightarrow> int \<Rightarrow> 'a list" where
  \<comment> \<open>Python's \<open>xs[-k:]\<close> for \<open>k > 0\<close>\<close>
  "slice_last xs k = drop (length xs - nat k) xs"

definition concatenate_rows :: "'a list list list \<Rightarrow> error + 'a list list" where
  \<comment> \<open>\<open>np.concatenate(trajectories, 0)\<close> for trajectories that are lists of rows: no
      trajectory at all raises \<open>ValueError\<close>; an empty trajectory is an array of one axis and
      does not concatenate with a non-empty one, of two axes\<close>
  "concatenate_rows ts =
     (if ts = [] then Inl ValueError
      else if list_ex (\<lambda>t. t = []) ts \<and> list_ex (\<lambda>t. t \<noteq> []) ts then Inl ValueError
      else Inr (concat ts))"

definition concatenate_scalars :: "'a list list \<Rightarrow> error + 'a list" where
  \<comment> \<open>\<open>np.concatenate(trajectories, 0)\<close> for trajectories that are lists of scalars\<close>
  "concatenate_scalars ts = (if ts = [] then Inl ValueError else Inr (concat ts))"

definition concat_dataset ::
  "tensor2 list \<Rightarrow> tensor2 list \<Rightarrow> tensor2 list \<Rightarrow> tensor1 list \<Rightarrow> bool list list \<Rightarrow> bool list list
     \<Rightarrow> error + dataset_split" where
  \<comment> \<open>the dictionary of the six concatenated columns, in the order of the source\<close>
  "concat_dataset obs_traj action_traj next_obs_traj reward_traj done_traj timeout_traj =
     bind_err (concatenate_rows obs_traj) (\<lambda>obs.
     bind_err (concatenate_rows action_traj) (\<lambda>act.
     bind_err (concatenate_rows next_obs_traj) (\<lambda>next_obs.
     bind_err (concatenate_scalars reward_traj) (\<lambda>rew.
     bind_err (concatenate_scalars done_traj) (\<lambda>term.
     bind_err (concatenate_scalars timeout_traj) (\<lambda>tmo.
     Inr \<lparr>observations = obs, actions = act, rewards = rew, terminals = term,
          timeouts = tmo, next_observations = next_obs\<rparr>))))))"

definition dataset_m_trajs :: "'a dataset_raw_scheme \<Rightarrow> int \<Rightarrow> bool \<Rightarrow> error + dataset_split" where
  "dataset_m_trajs dataset m terminate_on_end =
     bind_err (split_trajectories dataset terminate_on_end)
       (\<lambda>(obs_traj, next_obs_traj, action_traj, reward_traj, done_traj, timeout_traj).
     let inds_all = [0..<length obs_traj];
         inds = slice_to inds_all m
     in concat_dataset (map ((!) obs_traj) inds) (map ((!) action_traj) inds)
          (map ((!) next_obs_traj) inds) (map ((!) reward_traj) inds)
          (map ((!) done_traj) inds) (map ((!) timeout_traj) inds))"

definition dataset_split_expert ::
  "'a dataset_raw_scheme \<Rightarrow> int \<Rightarrow> int \<Rightarrow> bool \<Rightarrow> error + dataset_split \<times> dataset_split option" where
  \<comment> \<open>returns \<open>(dataset_e, dataset_s)\<close>, \<open>None\<close> standing for the empty dictionary.
      \<open>list(set(inds_succ) - set(inds_s))\<close> lists the remaining indices in ascending order.\<close>
  "dataset_split_expert dataset split_x exp_num terminate_on_end =
     bind_err (split_trajectories dataset terminate_on_end)
       (\<lambda>(obs_traj, next_obs_traj, action_traj, reward_traj, done_traj, timeout_traj).
     let inds_all = [0..<length obs_traj];
         inds_succ = slice_to inds_all exp_num;
         inds_s = (if 0 < split_x then slice_last inds_succ split_x else []);
         inds_e = filter (\<lambda>i. i \<notin> set inds_s) inds_succ
     in bind_err (concat_dataset (map ((!) obs_traj) inds_e) (map ((!) action_traj) inds_e)
          (map ((!) next_obs_traj) inds_e) (map ((!) reward_traj) inds_e)
          (map ((!) done_traj) inds_e) (map ((!) timeout_traj) inds_e)) (\<lambda>dataset_e.
        if map ((!) obs_traj) inds_s \<noteq> []
        then bind_err (concat_dataset (map ((!) obs_traj) inds_s) (map ((!) action_traj) inds_s)
               (map ((!) next_obs_traj) inds_s) (map ((!) reward_traj) inds_s)
               (map ((!) done_traj) inds_s) (map ((!) timeout_traj) inds_s))
               (\<lambda>dataset_s. Inr (dataset_e, Some dataset_s))
        else Inr (dataset_e, None)))"

section \<open>Concrete inputs\<close>

definition D_zero :: Discriminator where
  "D_zero = \<lparr>fc1 = \<lparr>lin_weight = [[0, 0]], lin_bias = [0]\<rparr>,
             fc2 = \<lparr>lin_weight = [[0]], lin_bias = [0]\<rparr>,
             fc3 = \<lparr>lin_weight = [[0]], lin_bias = [0]\<rparr>\<rparr>"

definition buf_one :: ReplayBuffer where
  "buf_one = convert_d4rl (ReplayBuffer_init 1 1 2)
     \<lparr>observations = [[1]], actions = [[2]], rewards = [0], terminals = [True],
      timeouts = [False], next_observations = [[3]], flags = [True]\<rparr>"


definition D_step :: Discriminator where
  \<comment> \<open>a discriminator whose logit on \<open>(s, a)\<close> is \<open>relu s - 1\<close>\<close>
  "D_step = \<lparr>fc1 = \<lparr>lin_weight = [[1, 0]], lin_bias = [0]\<rparr>,
             fc2 = \<lparr>lin_weight = [[1]], lin_bias = [0]\<rparr>,
             fc3 = \<lparr>lin_weight = [[1]], lin_bias = [- 1]\<rparr>\<rparr>"

definition buf_traj3 :: ReplayBuffer where
  \<comment> \<open>one trajectory of three transitions, the last one terminal\<close>
  "buf_traj3 = convert_d4rl (ReplayBuffer_init 1 1 3)
     \<lparr>observations = [[0], [0], [2]], actions = [[0], [0], [0]], rewards = [0, 0, 0],
      terminals = [False, False, True], timeouts = [False, False, False],
      next_observations = [[0], [2], [3]], flags = [False, False, False]\<rparr>"

definition ds_two :: d4rl_dataset where
  "ds_two = \<lparr>observations = [[5], [6]], actions = [[0], [0]], rewards = [1, 1],
     terminals = [False, True], timeouts = [False, False], next_observations = [[6], [7]],
     flags = [True, True]\<rparr>"


definition M_id :: Model where
  \<comment> \<open>a model whose two policies have the log-density \<open>state[i][0]\<close> on sample \<open>i\<close>\<close>
  "M_id = \<lparr>policy = (\<lambda>s a. s), policy_e = (\<lambda>s a. s), log_policy_e = None,
           automatic_alpha_tuning = True, alpha = 1, log_alpha = 0, epsilon = 1/100,
           total_it = 0\<rparr>"

definition buf_weighted :: ReplayBuffer where
  \<comment> \<open>two transitions with the weights 0.5 and 1.0\<close>
  "buf_weighted = (convert_d4rl (ReplayBuffer_init 1 1 2)
     \<lparr>observations = [[- 1], [- 3]], actions = [[0], [0]], rewards = [0, 0],
      terminals = [False, True], timeouts = [False, False],
      next_observations = [[- 3], [0]], flags = [False, False]\<rparr>)\<lparr>weight := [1/2, 1]\<rparr>"

definition buf_expert :: ReplayBuffer where
  "buf_expert = convert_d4rl (ReplayBuffer_init 1 1 2)
     \<lparr>observations = [[0], [0]], actions = [[0], [0]], rewards = [0, 0],
      terminals = [False, True], timeouts = [False, False],
      next_observations = [[0], [0]], flags = [True, True]\<rparr>"

definition raw_three :: dataset_raw where
  \<comment> \<open>three rows and no terminal or timeout flag: one trajectory\<close>
  "raw_three = \<lparr>observations = [[0], [1], [2]], actions = [[5], [6], [7]],
                rewards = [1, 1, 1], terminals = [False, False, False],
                timeouts = [False, False, False]\<rparr>"

definition buf_ragged :: ReplayBuffer where
  \<comment> \<open>a dataset with three observations and two rows in every other column\<close>
  "buf_ragged = convert_d4rl (ReplayBuffer_init 1 1 3)
     \<lparr>observations = [[0], [1], [2]], actions = [[0], [0]], rewards = [0, 0],
      terminals = [False, True], timeouts = [False, False],
      next_observations = [[1], [2]], flags = [False, False]\<rparr>"

definition buf_traj22 :: ReplayBuffer where
  \<comment> \<open>two trajectories of two transitions each; every state scores above 0.5 under
      \<open>D_step\<close>\<close>
  "buf_traj22 = convert_d4rl (ReplayBuffer_init 1 1 4)
     \<lparr>observations = [[2], [2], [2], [2]], actions = [[0], [0], [0], [0]],
      rewards = [0, 0, 0, 0], terminals = [False, True, False, True],
      timeouts = [False, False, False, False],
      next_observations = [[2], [2], [2], [2]], flags = [False, False, False, False]\<rparr>"

definition raw_trailing :: dataset_raw where
  \<comment> \<open>three rows, the second one terminal: a trajectory of two transitions and an empty
      trailing one\<close>
  "raw_trailing = \<lparr>observations = [[0], [1], [2]], actions = [[5], [6], [7]],
                   rewards = [1, 1, 1], terminals = [False, True, False],
                   timeouts = [False, False, False]\<rparr>"

definition D_ten :: Discriminator where
  \<comment> \<open>a discriminator whose logit is 10 on every input\<close>
  "D_ten = \<lparr>fc1 = \<lparr>lin_weight = [[0, 0]], lin_bias = [0]\<rparr>,
            fc2 = \<lparr>lin_weight = [[0]], lin_bias = [0]\<rparr>,
            fc3 = \<lparr>lin_weight = [[0]], lin_bias = [10]\<rparr>\<rparr>"

definition D_inf :: Discriminator_fl where
  \<comment> \<open>a discriminator whose first layer has the weights \<open>inf\<close> and \<open>-inf\<close>\<close>
  "D_inf = \<lparr>fc1_fl = \<lparr>lin_weight_fl = [[PosInf, NegInf]], lin_bias_fl = [Fin 0]\<rparr>,
            fc2_fl = \<lparr>lin_weight_fl = [[Fin 1]], lin_bias_fl = [Fin 0]\<rparr>,
            fc3_fl = \<lparr>lin_weight_fl = [[Fin 1]], lin_bias_fl = [Fin 0]\<rparr>\<rparr>"
section \<open>Properties of the discriminator\<close>

lemma bind_err_Inr_iff:
  "bind_err m f = Inr y \<longleftrightarrow> (\<exists>x. m = Inr x \<and> f x = Inr y)"
  by (cases m) (simp_all add: bind_err_def)

lemma map_err_Inr_length:
  "map_err f xs = Inr ys \<Longrightarrow> length ys = length xs"
  by (induction xs arbitrary: ys) (auto simp: bind_err_Inr_iff)

lemma map_err_Inr_set:
  "map_err f xs = Inr ys \<Longrightarrow> y \<in> set ys \<Longrightarrow> \<exists>x \<in> set xs. f x = Inr y"
  by (induction xs arbitrary: ys) (auto simp: bind_err_Inr_iff)

lemma clip_bounds: "lo \<le> hi \<Longrightarrow> lo \<le> clip x lo hi \<and> clip x lo hi \<le> hi"
  by (simp add: clip_def)

lemma Discriminator_row_bounds:
  assumes "Discriminator_row D r = Inr out" and "x \<in> set out"
  shows "1/10 \<le> x \<and> x \<le> 9/10"
proof -
  from assms(1) obtain d3 where "out = map (\<lambda>z. clip (sigmoid z) (1/10) (9/10)) d3"
    by (auto simp: Discriminator_row_def bind_err_Inr_iff)
  with assms(2) obtain z where "x = clip (sigmoid z) (1/10) (9/10)" by auto
  then show ?thesis using clip_bounds [of "1/10" "9/10" "sigmoid z"] by simp
qed

lemma Discriminator_forward_bounds:
  assumes "Discriminator_forward D s a = Inr d" and "x \<in> set d"
  shows "1/10 \<le> x \<and> x \<le> 9/10 \<and> 0 < x \<and> 0 < 1 - x"
proof -
  from assms(1) obtain sa outs where outs: "map_err (Discriminator_row D) sa = Inr outs"
    and d: "d = concat outs"
    by (auto simp: Discriminator_forward_def bind_err_Inr_iff)
  from assms(2) d obtain out where out: "out \<in> set outs" and x: "x \<in> set out" by auto
  from map_err_Inr_set [OF outs out] obtain r where "Discriminator_row D r = Inr out" by blast
  from Discriminator_row_bounds [OF this x] show ?thesis by simp
qed

lemma D_zero_forward: "Discriminator_forward D_zero [[1]] [[2]] = Inr [1/2]"
  by (simp add: Discriminator_forward_def Discriminator_row_def Linear_forward_def
      cat_dim1_def bind_err_def D_zero_def dot_def relu_def sigmoid_def clip_def)


section \<open>The discriminator on floating-point values\<close>

lemma fl_clip_sigmoid:
  "fl_clip (fl_sigmoid z) (1/10) (9/10) = NaN \<and> z = NaN \<or>
   (\<exists>r. fl_clip (fl_sigmoid z) (1/10) (9/10) = Fin r \<and> 1/10 \<le> r \<and> r \<le> 9/10)"
  using clip_bounds [of "1/10" "9/10"] by (cases z) simp_all

lemma Discriminator_row_fl_bounds:
  assumes "Discriminator_row_fl D r = Inr out" and "x \<in> set out"
  shows "x = NaN \<or> (\<exists>r. x = Fin r \<and> 1/10 \<le> r \<and> r \<le> 9/10)"
proof -
  from assms(1) obtain d3 where "out = map (\<lambda>z. fl_clip (fl_sigmoid z) (1/10) (9/10)) d3"
    by (auto simp: Discriminator_row_fl_def bind_err_Inr_iff)
  with assms(2) obtain z where "x = fl_clip (fl_sigmoid z) (1/10) (9/10)" by auto
  then show ?thesis using fl_clip_sigmoid [of z] by auto
qed

text \<open>
  C9. For every state and action input and for all parameter values, each score that the
  discriminator returns is NaN or lies in the closed interval from 0.1 to 0.9: the clip
  bounds every other value, the saturated values 0 and 1 of the sigmoid included, and
  passes NaN through. A score that is not NaN is strictly between 0 and 1, so that neither
  \<open>log(d)\<close> nor \<open>log(1-d)\<close> is taken at zero.
\<close>

theorem Discriminator_forward_fl_clipped:
  assumes "Discriminator_forward_fl D s a = Inr d" and "x \<in> set d"
  shows "x = NaN \<or> (\<exists>r. x = Fin r \<and> 1/10 \<le> r \<and> r \<le> 9/10 \<and> 0 < r \<and> 0 < 1 - r)"
proof -
  from assms(1) obtain sa outs where outs: "map_err (Discriminator_row_fl D) sa = Inr outs"
    and d: "d = concat outs"
    by (auto simp: Discriminator_forward_fl_def bind_err_Inr_iff)
  from assms(2) d obtain out where out: "out \<in> set outs" and x: "x \<in> set out" by auto
  from map_err_Inr_set [OF outs out] obtain r where "Discriminator_row_fl D r = Inr out" by blast
  from Discriminator_row_fl_bounds [OF this x] show ?thesis by auto
qed

text \<open>
  On finite parameters and inputs the forward pass over \<open>fl\<close> is the real-valued one.
\<close>

lemma fl_dot_Fin: "fl_dot (map Fin xs) (map Fin ys) = Fin (dot xs ys)"
proof -
  have "foldr fl_add (map2 fl_mul (map Fin xs) (map Fin ys)) (Fin 0) = Fin (sum_list (map2 (*) xs ys))"
  proof (induction xs arbitrary: ys)
    case Nil
    then show ?case by simp
  next
    case (Cons x xs)
    then show ?case by (cases ys) simp_all
  qed
  then show ?thesis by (simp add: fl_dot_def dot_def)
qed

lemma map_err_map:
  "map_err f (map g xs) = map_err (\<lambda>x. f (g x)) xs"
  by (induction xs) simp_all

lemma map_err_map_sum:
  "map_err (\<lambda>x. map_sum id h (f x)) xs = map_sum id (map h) (map_err f xs)"
proof (induction xs)
  case Nil
  then show ?case by simp
next
  case (Cons x xs)
  then show ?case
    by (cases "f x"; cases "map_err f xs") (simp_all add: bind_err_def)
qed

lemma Linear_forward_fl_Fin:
  "Linear_forward_fl (fl_Linear l) (map Fin x) = map_sum id (map Fin) (Linear_forward l x)"
proof -
  have "map2 (\<lambda>row b. fl_add (fl_dot row (map Fin x)) b) (map (map Fin) W) (map Fin bs)
          = map Fin (map2 (\<lambda>row b. dot row x + b) W bs)" for W bs
  proof (induction W arbitrary: bs)
    case Nil
    then show ?case by simp
  next
    case (Cons w W)
    then show ?case by (cases bs) (simp_all add: fl_dot_Fin)
  qed
  then show ?thesis
    by (simp add: Linear_forward_fl_def Linear_forward_def fl_Linear_def list_all_iff)
qed

lemma fl_relu_Fin: "map fl_relu (map Fin xs) = map Fin (map relu xs)"
  by simp

lemma fl_clip_sigmoid_Fin:
  "map (\<lambda>z. fl_clip (fl_sigmoid z) lo hi) (map Fin xs) = map Fin (map (\<lambda>z. clip (sigmoid z) lo hi) xs)"
  by simp

lemma Discriminator_row_fl_Fin:
  "Discriminator_row_fl (fl_Discriminator D) (map Fin r)
     = map_sum id (map Fin) (Discriminator_row D r)"
proof (cases "Linear_forward (fc1 D) r")
  case (Inl e)
  then show ?thesis
    by (simp add: Discriminator_row_fl_def Discriminator_row_def fl_Discriminator_def
        Linear_forward_fl_Fin bind_err_def)
next
  case d1: (Inr d1)
  show ?thesis
  proof (cases "Linear_forward (fc2 D) (map relu d1)")
    case (Inl e)
    then show ?thesis
      using d1 fl_relu_Fin [of d1]
      by (simp add: Discriminator_row_fl_def Discriminator_row_def fl_Discriminator_def
          Linear_forward_fl_Fin bind_err_def del: map_map)
  next
    case d2: (Inr d2)
    show ?thesis
    proof (cases "Linear_forward (fc3 D) (map relu d2)")
      case (Inl e)
      then show ?thesis
        using d1 d2 fl_relu_Fin [of d1] fl_relu_Fin [of d2]
        by (simp add: Discriminator_row_fl_def Discriminator_row_def fl_Discriminator_def
            Linear_forward_fl_Fin bind_err_def del: map_map)
    next
      case (Inr d3)
      then show ?thesis
        using d1 d2 fl_relu_Fin [of d1] fl_relu_Fin [of d2]
          fl_clip_sigmoid_Fin [of "1/10" "9/10" d3]
        by (simp add: Discriminator_row_fl_def Discriminator_row_def fl_Discriminator_def
            Linear_forward_fl_Fin bind_err_def del: map_map)
    qed
  qed
qed

lemma cat_dim1_map:
  "cat_dim1 (map (map f) s) (map (map f) a) = map_sum id (map (map f)) (cat_dim1 s a)"
proof -
  have "map2 (@) (map (map f) s) (map (map f) a) = map (map f) (map2 (@) s a)"
  proof (induction s arbitrary: a)
    case Nil
    then show ?case by simp
  next
    case (Cons x s)
    then show ?case by (cases a) simp_all
  qed
  then show ?thesis by (simp add: cat_dim1_def)
qed

lemma Discriminator_forward_fl_Fin:
  "Discriminator_forward_fl (fl_Discriminator D) (map (map Fin) s) (map (map Fin) a)
     = map_sum id (map Fin) (Discriminator_forward D s a)"
proof (cases "cat_dim1 s a")
  case (Inl e)
  then show ?thesis
    by (simp add: Discriminator_forward_fl_def Discriminator_forward_def cat_dim1_map bind_err_def)
next
  case (Inr sa)
  have "map_err (Discriminator_row_fl (fl_Discriminator D)) (map (map Fin) sa)
          = map_sum id (map (map Fin)) (map_err (Discriminator_row D) sa)"
    by (simp add: map_err_map Discriminator_row_fl_Fin map_err_map_sum)
  then show ?thesis
    using Inr
    by (cases "map_err (Discriminator_row D) sa")
      (simp_all add: Discriminator_forward_fl_def Discriminator_forward_def cat_dim1_map
        bind_err_def map_concat)
qed


lemma sigmoid_10: "9/10 < sigmoid 10"
proof -
  have "1 + (10 :: real) \<le> exp 10" by (rule exp_ge_add_one_self)
  then have "(9 :: real) < exp 10" by simp
  then have "exp (- 10 :: real) < 1/9"
    by (simp add: exp_minus field_simps)
  moreover have "0 < 1 + exp (- 10 :: real)" by (simp add: add_pos_pos)
  ultimately show ?thesis by (simp add: sigmoid_def field_simps)
qed

lemma D_ten_forward: "Discriminator_forward D_ten [[1]] [[2]] = Inr [9/10]"
proof -
  have "clip (sigmoid 10) (1/10) (9/10) = 9/10"
    using sigmoid_10 by (simp add: clip_def min_def max_def)
  then show ?thesis
    by (simp add: Discriminator_forward_def Discriminator_row_def Linear_forward_def
      cat_dim1_def bind_err_def D_ten_def dot_def relu_def)
qed

lemma D_ten_forward_fl:
  "Discriminator_forward_fl (fl_Discriminator D_ten) [[Fin 1]] [[Fin 2]] = Inr [Fin (9/10)]"
  using Discriminator_forward_fl_Fin [of D_ten "[[1]]" "[[2]]"] by (simp add: D_ten_forward)

theorem Discriminator_forward_fl_clipped_witness:
  "Discriminator_forward_fl (fl_Discriminator D_ten) [[Fin 1]] [[Fin 2]] = Inr [Fin (9/10)] \<and>
   Fin (9/10) \<in> set [Fin (9/10)] \<and> 9/10 < sigmoid 10 \<and>
   (\<exists>r. Fin (9/10) = Fin r \<and> 1/10 \<le> r \<and> r \<le> 9/10 \<and> 0 < r \<and> 0 < 1 - r)"
  using Discriminator_forward_fl_clipped [OF D_ten_forward_fl, of "Fin (9/10)"]
    D_ten_forward_fl sigmoid_10 by simp

text \<open>
  The scores are not always in the interval: a NaN in the input, or the sum of an infinite
  and a minus infinite product in the first layer, gives the score NaN.
\<close>

theorem Discriminator_forward_fl_counterexample:
  "Discriminator_forward_fl (fl_Discriminator D_zero) [[NaN]] [[Fin 2]] = Inr [NaN] \<and>
   Discriminator_forward_fl D_inf [[Fin 1]] [[Fin 1]] = Inr [NaN]"
  by (simp add: Discriminator_forward_fl_def Discriminator_row_fl_def Linear_forward_fl_def
      cat_dim1_def bind_err_def fl_Discriminator_def fl_Linear_def D_zero_def D_inf_def
      fl_dot_def)


section \<open>The discriminator loss\<close>

lemma sum_list_map2_nth:
  "length xs = length ys \<Longrightarrow> sum_list (map2 h xs ys) = (\<Sum>i<length xs. h (xs ! i) (ys ! i))"
proof -
  assume l: "length xs = length ys"
  have "sum_list (map2 h xs ys) = (\<Sum>i = 0..<length (map2 h xs ys). map2 h xs ys ! i)"
    by (rule sum_list_sum_nth)
  also have "\<dots> = (\<Sum>i = 0..<length xs. h (xs ! i) (ys ! i))"
    using l by (intro sum.cong) simp_all
  finally show ?thesis by (simp add: atLeast0LessThan)
qed

lemma d_loss_standard:
  assumes "length d_e = length d_s"
  shows "d_loss True eta d_e d_s = d_loss_standard_spec (length d_e) ((!) d_e) ((!) d_s)"
  using assms
  by (simp add: d_loss_def d_loss_standard_spec_def mean_def sum_list_map2_nth Let_def)

lemma d_loss_pu:
  assumes "length d_e = length d_s"
  shows "d_loss False eta d_e d_s = d_loss_pu_spec (length d_e) eta ((!) d_e) ((!) d_s)"
proof -
  have "sum_list (map2 (+) (map (\<lambda>d. - ln d) d_e)
          (map2 (+) (map (\<lambda>d. - ln (1 - d) / eta) d_s) (map (\<lambda>d. ln (1 - d)) d_e)))
        = (\<Sum>i<length d_e. - ln (d_e ! i) - ln (1 - d_s ! i) / eta + ln (1 - d_e ! i))"
    using assms by (subst sum_list_map2_nth) (simp_all add: algebra_simps)
  then show ?thesis
    using assms by (simp add: d_loss_def d_loss_pu_spec_def mean_def Let_def)
qed

lemma Linear_forward_length:
  "Linear_forward l x = Inr y \<Longrightarrow> length y = min (length (lin_weight l)) (length (lin_bias l))"
  by (auto simp: Linear_forward_def split: if_splits)

lemma Discriminator_row_length:
  "Discriminator_row D r = Inr out \<Longrightarrow>
     length out = min (length (lin_weight (fc3 D))) (length (lin_bias (fc3 D)))"
  by (auto simp: Discriminator_row_def bind_err_Inr_iff dest: Linear_forward_length)

lemma length_concat_const:
  "(\<And>x. x \<in> set xss \<Longrightarrow> length x = k) \<Longrightarrow> length (concat xss) = length xss * k"
  by (induction xss) simp_all

lemma Discriminator_forward_length:
  assumes "Discriminator_forward D s a = Inr d"
  shows "length d = length s * min (length (lin_weight (fc3 D))) (length (lin_bias (fc3 D)))"
proof -
  from assms obtain sa outs where sa: "cat_dim1 s a = Inr sa"
    and outs: "map_err (Discriminator_row D) sa = Inr outs" and d: "d = concat outs"
    by (auto simp: Discriminator_forward_def bind_err_Inr_iff)
  from sa have "length sa = length s" by (auto simp: cat_dim1_def split: if_splits)
  moreover have "length outs = length sa" by (rule map_err_Inr_length [OF outs])
  moreover have "length x = min (length (lin_weight (fc3 D))) (length (lin_bias (fc3 D)))"
    if "x \<in> set outs" for x
    using map_err_Inr_set [OF outs that] Discriminator_row_length by blast
  ultimately show ?thesis by (simp add: d length_concat_const)
qed

lemma index_rows_Inr: "index_rows col ind = Inr rows \<Longrightarrow> rows = map ((!) col) ind"
  by (auto simp: index_rows_def split: if_splits)

lemma sample_Inr:
  assumes "sample buf n gen = Inr (s, a, rest)"
  shows "length s = nat n \<and> length a = nat n"
  using assms
  by (auto simp: sample_def bind_err_Inr_iff randint_def dest!: index_rows_Inr split: if_splits)

text \<open>
  C1. One step of \<open>train_discriminator\<close> computes, from the clipped discriminator outputs
  \<open>d_e\<close> and \<open>d_s\<close> on the two minibatches, the loss \<open>mean(-log(d_e) - log(1-d_s))\<close> when
  \<open>no_pu\<close> is set and \<open>mean(-log(d_e) - log(1-d_s)/eta + log(1-d_e))\<close> otherwise.
\<close>

theorem train_discriminator_step_loss:
  assumes "train_discriminator_step D no_pu eta buf_e buf_s batch_size gen_e gen_s = Inr loss"
  shows "\<exists>s_e a_e rest_e s_s a_s rest_s d_e d_s.
           sample buf_e batch_size gen_e = Inr (s_e, a_e, rest_e) \<and>
           sample buf_s batch_size gen_s = Inr (s_s, a_s, rest_s) \<and>
           Discriminator_forward D s_e a_e = Inr d_e \<and>
           Discriminator_forward D s_s a_s = Inr d_s \<and>
           length d_e = length d_s \<and>
           loss = (if no_pu then d_loss_standard_spec (length d_e) ((!) d_e) ((!) d_s)
                   else d_loss_pu_spec (length d_e) eta ((!) d_e) ((!) d_s))"
proof -
  from assms obtain s_e a_e rest_e s_s a_s rest_s d_e d_s where
    e: "sample buf_e batch_size gen_e = Inr (s_e, a_e, rest_e)" and
    s: "sample buf_s batch_size gen_s = Inr (s_s, a_s, rest_s)" and
    de: "Discriminator_forward D s_e a_e = Inr d_e" and
    ds: "Discriminator_forward D s_s a_s = Inr d_s" and
    loss: "loss = d_loss no_pu eta d_e d_s"
    by (auto simp: train_discriminator_step_def bind_err_Inr_iff Discriminator_call_def)
  have len: "length d_e = length d_s"
    using Discriminator_forward_length [OF de] Discriminator_forward_length [OF ds]
      sample_Inr [OF e] sample_Inr [OF s] by simp
  have "loss = (if no_pu then d_loss_standard_spec (length d_e) ((!) d_e) ((!) d_s)
                   else d_loss_pu_spec (length d_e) eta ((!) d_e) ((!) d_s))"
    using d_loss_standard [OF len] d_loss_pu [OF len] loss by (cases no_pu) simp_all
  with e s de ds len show ?thesis by blast
qed

lemma sample_buf_one:
  "sample buf_one 1 (\<lambda>_. 0) = Inr ([[1]], [[2]], [[3]], [0], [0], [1], [1], [0])"
  by (simp add: sample_def buf_one_def convert_d4rl_def ReplayBuffer_init_def randint_def
      index_rows_def bind_err_def)

lemma step_buf_one:
  "train_discriminator_step D_zero False 2 buf_one buf_one 1 (\<lambda>_. 0) (\<lambda>_. 0)
     = Inr (d_loss False 2 [1/2] [1/2])"
  unfolding train_discriminator_step_def sample_buf_one
  by (simp add: bind_err_def Discriminator_call_def D_zero_forward)

theorem train_discriminator_step_loss_witness:
  "train_discriminator_step D_zero False 2 buf_one buf_one 1 (\<lambda>_. 0) (\<lambda>_. 0)
     = Inr (d_loss False 2 [1/2] [1/2]) \<and>
   d_loss False 2 [1/2] [1/2] = d_loss_pu_spec 1 2 ((!) [1/2]) ((!) [1/2])"
proof -
  from train_discriminator_step_loss [OF step_buf_one]
  obtain s_e a_e rest_e d_e s_s a_s rest_s d_s where
    e: "sample buf_one 1 (\<lambda>_. 0) = Inr (s_e, a_e, rest_e)" and
    s: "sample buf_one 1 (\<lambda>_. 0) = Inr (s_s, a_s, rest_s)" and
    de: "Discriminator_forward D_zero s_e a_e = Inr d_e" and
    ds: "Discriminator_forward D_zero s_s a_s = Inr d_s" and
    loss: "d_loss False 2 [1/2] [1/2] = d_loss_pu_spec (length d_e) 2 ((!) d_e) ((!) d_s)"
    by auto
  from e s have "s_e = [[1]]" "a_e = [[2]]" "s_s = [[1]]" "a_s = [[2]]"
    unfolding sample_buf_one by simp_all
  with de ds have "d_e = [1/2]" "d_s = [1/2]" by (simp_all add: D_zero_forward)
  with loss step_buf_one show ?thesis by simp
qed


section \<open>The rollback loop of \<open>select_data\<close>\<close>

lemma rollback_iter_Inr:
  assumes "rollback_iter D bar decay done_ix k (m, b, wd) = Inr (m', b', wd')"
  shows "\<exists>d sel. Discriminator_forward D (state b) (action b) = Inr d \<and> length d \<noteq> 1 \<and>
           length m \<noteq> 1 \<and>
           ior_shifted m (clear_starts k (ge_bar d bar) 0 done_ix) k = Inr m' \<and>
           broadcast2 (\<and>) m' (map (\<lambda>w. w < wd) (weight b)) = Inr sel \<and>
           length sel = length (weight b) \<and>
           b' = b\<lparr>weight := map2 (\<lambda>w s. if s then wd else w) (weight b) sel\<rparr> \<and>
           wd' = wd * decay"
  using assms
  by (auto simp: rollback_iter_def bind_err_Inr_iff Discriminator_call_def Let_def ge_bar_def
      split: if_splits)

lemma ior_shifted_length: "ior_shifted m ix k = Inr m' \<Longrightarrow> length m' = length m"
  by (auto simp: ior_shifted_def inplace_broadcast_def bind_err_Inr_iff Let_def split: if_splits)

lemma broadcast2_and_nth:
  assumes "broadcast2 (\<and>) m c = Inr sel" and "length sel = length c" and "i < length c"
    and "sel ! i"
  shows "c ! i"
proof (cases "length m = length c")
  case True
  with assms show ?thesis by (auto simp: broadcast2_def)
next
  case False
  note neq = this
  show ?thesis
  proof (cases "length c = 1")
    case True
    with neq assms(1) have "sel = map (\<lambda>x. x \<and> hd c) m" by (simp add: broadcast2_def)
    with assms(2) neq show ?thesis by simp
  next
    case False
    with neq assms(1) have "sel = map ((\<and>) (hd m)) c"
      by (auto simp: broadcast2_def split: if_splits)
    with assms(3,4) show ?thesis by simp
  qed
qed

lemma rollback_iter_weight:
  assumes "rollback_iter D bar decay done_ix k (m, b, wd) = Inr (m', b', wd')"
  shows "length (weight b') = length (weight b) \<and>
         (\<forall>i<length (weight b). weight b ! i \<le> weight b' ! i \<and>
            (weight b' ! i \<noteq> weight b ! i \<longrightarrow> weight b ! i < wd \<and> weight b' ! i = wd))"
proof -
  from rollback_iter_Inr [OF assms] obtain sel m'' where
    sel: "broadcast2 (\<and>) m'' (map (\<lambda>w. w < wd) (weight b)) = Inr sel" and
    len: "length sel = length (weight b)" and
    b': "b' = b\<lparr>weight := map2 (\<lambda>w s. if s then wd else w) (weight b) sel\<rparr>"
    by blast
  have lt: "weight b ! i < wd" if "i < length (weight b)" "sel ! i" for i
    using broadcast2_and_nth [OF sel _ _ that(2), of ] len that(1) by simp
  then have "weight b ! i \<le> wd" if "i < length (weight b)" "sel ! i" for i
    using that by (simp add: less_imp_le)
  with lt show ?thesis using len by (auto simp: b')
qed

lemma rollback_loop_decay:
  "rollback_loop D bar decay done_ix n (m0, b0, w0) = Inr (m, b, wd) \<Longrightarrow> wd = w0 * decay ^ n"
proof (induction n arbitrary: m b wd)
  case 0
  then show ?case by simp
next
  case (Suc n)
  then obtain m1 b1 wd1 where 1: "rollback_loop D bar decay done_ix n (m0, b0, w0) = Inr (m1, b1, wd1)"
    and 2: "rollback_iter D bar decay done_ix n (m1, b1, wd1) = Inr (m, b, wd)"
    by (auto simp: bind_err_Inr_iff)
  from Suc.IH [OF 1] rollback_iter_Inr [OF 2] show ?case by auto
qed

text \<open>
  C5. The weights never decrease in the rollback loop of \<open>select_data\<close>: for every
  discriminator and every iteration \<open>k\<close>, the weight of each transition after iteration \<open>k\<close>
  is at least its weight before it, and a weight changes only from a value strictly below
  \<open>weight_init * decay ^ k\<close> to that value.
\<close>

theorem rollback_weights_monotone:
  assumes "rollback_loop D bar decay done_ix (Suc k) (m0, b0, weight_init) = Inr (m', b', wd')"
  shows "\<exists>m b. rollback_loop D bar decay done_ix k (m0, b0, weight_init)
                  = Inr (m, b, weight_init * decay ^ k) \<and>
           length (weight b') = length (weight b) \<and>
           (\<forall>i<length (weight b). weight b ! i \<le> weight b' ! i \<and>
              (weight b' ! i \<noteq> weight b ! i \<longrightarrow>
                 weight b ! i < weight_init * decay ^ k \<and> weight b' ! i = weight_init * decay ^ k))"
proof -
  from assms obtain m b wd where
    1: "rollback_loop D bar decay done_ix k (m0, b0, weight_init) = Inr (m, b, wd)" and
    2: "rollback_iter D bar decay done_ix k (m, b, wd) = Inr (m', b', wd')"
    by (auto simp: bind_err_Inr_iff)
  have wd: "wd = weight_init * decay ^ k" by (rule rollback_loop_decay [OF 1])
  from rollback_iter_weight [OF 2] 1 show ?thesis unfolding wd by blast
qed

text \<open>
  C2. \<open>select_data\<close> evaluates the discriminator on the next states to build its base mask.
  The discriminator's \<open>forward\<close> takes a state and an action; called with the next states
  alone, as line 496 does, it raises \<open>TypeError\<close>, for every buffer and every \<open>bar\<close>, and no
  mask is computed.
\<close>

theorem select_data_raises:
  "select_data D replay_buffer_s bar rollback decay weight_init = Inl TypeError"
  by (simp add: select_data_def Discriminator_call_def bind_err_def)


section \<open>Trajectory boundaries in the rollback loop\<close>

lemma slice_fill_length: "length (slice_fill xs a b v) = length xs"
  by (simp add: slice_fill_def)

lemma slice_fill_nth:
  "j < length xs \<Longrightarrow> slice_fill xs a b v ! j = (if a \<le> j \<and> j < b then v else xs ! j)"
  by (simp add: slice_fill_def)

lemma clear_starts_length: "length (clear_starts k index start done_ix) = length index"
  by (induction done_ix arbitrary: index start) (simp_all add: slice_fill_length)

lemma clear_starts_nth:
  assumes "sorted_wrt (<) (start # done_ix)" and "j < last (start # done_ix)"
    and "j < length index"
  shows "clear_starts k index start done_ix ! j
           = (index ! j \<and> (\<forall>s\<in>set (start # done_ix). s \<le> j \<longrightarrow> s + k + 1 \<le> j))"
  using assms
proof (induction done_ix arbitrary: index start)
  case Nil
  then show ?case by simp
next
  case (Cons e done_ix)
  let ?index' = "slice_fill index start (min e (start + k + 1)) False"
  from Cons.prems have sorted': "sorted_wrt (<) (e # done_ix)" and lt: "start < e"
    and last': "j < last (e # done_ix)" by simp_all
  have len': "j < length ?index'" using Cons.prems(3) by (simp add: slice_fill_length)
  have IH: "clear_starts k ?index' e done_ix ! j
              = (?index' ! j \<and> (\<forall>s\<in>set (e # done_ix). s \<le> j \<longrightarrow> s + k + 1 \<le> j))"
    by (rule Cons.IH [OF sorted' last' len'])
  have idx: "?index' ! j = (index ! j \<and> \<not> (start \<le> j \<and> j < min e (start + k + 1)))"
    using Cons.prems(3) by (simp add: slice_fill_nth)
  show ?case
    unfolding clear_starts.simps IH idx using lt by auto
qed

lemma sorted_where_plus_one: "sorted_wrt (<) (0 # where_plus_one c)"
proof -
  have "sorted_wrt (<) (filter (\<lambda>i. c ! i) [0..<length c])"
    by (rule sorted_wrt_filter) simp
  then have "sorted_wrt (<) (where_plus_one c)"
    by (simp add: where_plus_one_def sorted_wrt_map)
  then show ?thesis by (auto simp: where_plus_one_def)
qed

lemma set_where_plus_one:
  "e \<in> set (where_plus_one c) \<longleftrightarrow> 0 < e \<and> e \<le> length c \<and> c ! (e - 1)"
  by (cases e) (auto simp: where_plus_one_def)

lemma last_where_plus_one:
  assumes "c \<noteq> []" and "c ! (length c - 1)"
  shows "last (0 # where_plus_one c) = length c"
proof -
  from assms(1) obtain n where n: "length c = Suc n" by (cases c) auto
  have "filter (\<lambda>i. c ! i) [0..<length c] = filter (\<lambda>i. c ! i) [0..<n] @ [n]"
    using assms(2) by (simp add: n)
  then show ?thesis by (simp add: where_plus_one_def n)
qed

lemma anchor_done_Inr:
  assumes "anchor_done buf0 = Inr (buf, done_ix)"
    and "length (timeout buf0) = length (not_done buf0)"
  shows "buf = buf0\<lparr>not_done := (not_done buf0)[length (not_done buf0) - 1 := 0]\<rparr> \<and>
         not_done buf0 \<noteq> [] \<and>
         done_ix = where_plus_one (map2 (\<or>) (map (\<lambda>x. x = 0) (not_done buf)) (map (\<lambda>x. x = 1) (timeout buf)))"
  using assms
  by (auto simp: anchor_done_def set_last_def broadcast2_def bind_err_Inr_iff Let_def
      split: if_splits)

lemma anchor_done_props:
  assumes "anchor_done buf0 = Inr (buf, done_ix)"
    and "length (timeout buf0) = length (not_done buf0)"
  shows "sorted_wrt (<) (0 # done_ix)" and "last (0 # done_ix) = length (not_done buf0)"
    and "e \<in> set done_ix \<longleftrightarrow>
           0 < e \<and> e \<le> length (not_done buf0) \<and>
           (not_done buf ! (e - 1) = 0 \<or> timeout buf ! (e - 1) = 1)"
proof -
  let ?c = "map2 (\<or>) (map (\<lambda>x. x = 0) (not_done buf)) (map (\<lambda>x. x = 1) (timeout buf))"
  from anchor_done_Inr [OF assms] have
    buf: "buf = buf0\<lparr>not_done := (not_done buf0)[length (not_done buf0) - 1 := 0]\<rparr>" and
    ne: "not_done buf0 \<noteq> []" and d: "done_ix = where_plus_one ?c"
    by simp_all
  have lenc: "length ?c = length (not_done buf0)" using assms(2) by (simp add: buf)
  show "sorted_wrt (<) (0 # done_ix)" unfolding d by (rule sorted_where_plus_one)
  have "?c ! (length ?c - 1)"
    using ne assms(2) unfolding lenc by (simp add: buf)
  moreover have "?c \<noteq> []" using lenc ne by auto
  ultimately show "last (0 # done_ix) = length (not_done buf0)"
    unfolding d using lenc last_where_plus_one by metis
  show "e \<in> set done_ix \<longleftrightarrow>
           0 < e \<and> e \<le> length (not_done buf0) \<and>
           (not_done buf ! (e - 1) = 0 \<or> timeout buf ! (e - 1) = 1)"
    unfolding d set_where_plus_one lenc using assms(2) by (auto simp: buf)
qed

lemma ior_shifted_nth:
  assumes "ior_shifted m ix k = Inr m'" and "length ix = length m" and "i < length m"
  shows "m' ! i = (m ! i \<or> (i + k + 1 < length m \<and> ix ! (i + k + 1)))"
proof -
  let ?n = "length m - (k + 1)"
  have leq: "length (drop (k + 1) ix) = length (take ?n m)" using assms(2) by simp
  from assms(1) have m': "m' = map2 (\<or>) (take ?n m) (drop (k + 1) ix) @ drop ?n m"
    using leq by (auto simp: ior_shifted_def inplace_broadcast_def bind_err_def Let_def)
  show ?thesis
  proof (cases "i < ?n")
    case True
    then have "i + k + 1 < length m" by arith
    with True show ?thesis using assms(2,3) by (simp add: m' nth_append add.commute)
  next
    case False
    then show ?thesis using assms(2,3) by (auto simp: m' nth_append)
  qed
qed

text \<open>
  C6. Boundary safety of the rollback masks. In iteration \<open>k\<close> the transition \<open>i\<close> is added to
  the retention mask only on account of the transition \<open>i + k + 1\<close>, and only if no
  trajectory boundary (an element of \<open>done\<close>, the index after a terminal or timed-out
  transition) lies in between: a transition within \<open>k + 1\<close> steps of the end of its
  trajectory gets nothing from the \<open>k\<close>-th mask, and no transition is retained on account
  of a transition of a following trajectory.
\<close>

theorem rollback_mask_boundary_safe:
  assumes "anchor_done buf0 = Inr (buf, done_ix)"
    and "rollback_iter D bar decay done_ix k (m, b, wd) = Inr (m', b', wd')"
    and "Discriminator_forward D (state b) (action b) = Inr d"
    and "length (timeout buf0) = length (not_done buf0)"
    and "length d = length (not_done buf0)"
    and "length m = length (not_done buf0)"
  shows "length m' = length m \<and>
         (\<forall>e. e \<in> set done_ix \<longleftrightarrow>
            0 < e \<and> e \<le> length m \<and> (not_done buf ! (e - 1) = 0 \<or> timeout buf ! (e - 1) = 1)) \<and>
         (\<forall>i<length m. m' ! i =
            (m ! i \<or> (i + k + 1 < length m \<and> bar \<le> d ! (i + k + 1) \<and>
                      (\<forall>e\<in>set done_ix. e \<le> i \<or> i + k + 1 < e))))"
proof -
  let ?ix = "clear_starts k (ge_bar d bar) 0 done_ix"
  from rollback_iter_Inr [OF assms(2)] assms(3)
  have ior: "ior_shifted m ?ix k = Inr m'" by auto
  have lix: "length ?ix = length m" using assms(5,6) by (simp add: clear_starts_length ge_bar_def)
  note props = anchor_done_props [OF assms(1,4)]
  have ix: "?ix ! j = (bar \<le> d ! j \<and> (\<forall>e\<in>set done_ix. e \<le> j \<longrightarrow> e + k + 1 \<le> j) \<and> k + 1 \<le> j)"
    if "j < length m" for j
  proof -
    have "j < last (0 # done_ix)" using that props(2) assms(6) by simp
    moreover have "j < length (ge_bar d bar)" using that assms(5,6) by (simp add: ge_bar_def)
    ultimately have "?ix ! j = (ge_bar d bar ! j \<and> (\<forall>s\<in>set (0 # done_ix). s \<le> j \<longrightarrow> s + k + 1 \<le> j))"
      using clear_starts_nth [OF props(1)] by blast
    moreover have "ge_bar d bar ! j = (bar \<le> d ! j)" using that assms(5,6) by (simp add: ge_bar_def)
    ultimately show ?thesis by auto
  qed
  have "m' ! i = (m ! i \<or> (i + k + 1 < length m \<and> bar \<le> d ! (i + k + 1) \<and>
                      (\<forall>e\<in>set done_ix. e \<le> i \<or> i + k + 1 < e)))" if "i < length m" for i
  proof (cases "i + k + 1 < length m")
    case True
    have "?ix ! (i + k + 1) = (bar \<le> d ! (i + k + 1) \<and> (\<forall>e\<in>set done_ix. e \<le> i \<or> i + k + 1 < e))"
      unfolding ix [OF True] by auto
    with ior_shifted_nth [OF ior lix that] True show ?thesis by simp
  next
    case False
    with ior_shifted_nth [OF ior lix that] show ?thesis by simp
  qed
  moreover have "length m' = length m" by (rule ior_shifted_length [OF ior])
  moreover have "\<forall>e. e \<in> set done_ix \<longleftrightarrow>
            0 < e \<and> e \<le> length m \<and> (not_done buf ! (e - 1) = 0 \<or> timeout buf ! (e - 1) = 1)"
    using props(3) assms(6) by simp
  ultimately show ?thesis by blast
qed


section \<open>The scenario of one trajectory of three transitions\<close>

lemma passes_half: "(1/2 \<le> clip (sigmoid z) (1/10) (9/10)) = (0 \<le> z)"
proof -
  have "(1/2 \<le> sigmoid z) = (0 \<le> z)"
  proof -
    have pos: "0 < 1 + exp (- z)" by (simp add: add_pos_pos)
    have "(1/2 \<le> sigmoid z) = (1 + exp (- z) \<le> 2)"
      unfolding sigmoid_def using pos by (simp add: field_simps)
    also have "\<dots> = (exp (- z) \<le> exp 0)" by simp
    also have "\<dots> = (0 \<le> z)" by (simp only: exp_le_cancel_iff) simp
    finally show ?thesis .
  qed
  then show ?thesis by (auto simp: clip_def min_def max_def)
qed

lemma D_step_forward:
  "Discriminator_forward D_step [[0], [0], [2]] [[0], [0], [0]]
     = Inr [clip (sigmoid (- 1)) (1/10) (9/10), clip (sigmoid (- 1)) (1/10) (9/10),
            clip (sigmoid 1) (1/10) (9/10)]"
  by (simp add: Discriminator_forward_def Discriminator_row_def Linear_forward_def
      cat_dim1_def bind_err_def D_step_def dot_def relu_def)

lemma buf_traj3_simps:
  "state buf_traj3 = [[0], [0], [2]]" "action buf_traj3 = [[0], [0], [0]]"
  "next_state buf_traj3 = [[0], [2], [3]]" "reward buf_traj3 = [0, 0, 0]"
  "not_done buf_traj3 = [1, 1, 0]" "flag buf_traj3 = [0, 0, 0]"
  "weight buf_traj3 = [1, 1, 1]" "timeout buf_traj3 = [0, 0, 0]" "size_buf buf_traj3 = 3"
  by (simp_all add: buf_traj3_def convert_d4rl_def)

lemma anchor_done_traj3: "anchor_done buf_traj3 = Inr (buf_traj3, [3])"
  by (simp add: anchor_done_def set_last_def broadcast2_def where_plus_one_def bind_err_def
      buf_traj3_simps upt_rec [of 0] upt_rec [of 1] upt_rec [of 2]) 


lemma index_traj3:
  "ge_bar [clip (sigmoid (- 1)) (1/10) (9/10), clip (sigmoid (- 1)) (1/10) (9/10),
            clip (sigmoid 1) (1/10) (9/10)] (1/2) = [False, False, True]"
  unfolding ge_bar_def by (simp only: list.map passes_half) simp

lemma iter0_traj3:
  "rollback_iter D_step (1/2) (1/2) [3] 0 ([False, False, True], buf_traj3\<lparr>weight := [0, 0, 0]\<rparr>, 1)
     = Inr ([False, True, True], buf_traj3\<lparr>weight := [0, 1, 1]\<rparr>, 1/2)"
  by (simp add: rollback_iter_def Discriminator_call_def buf_traj3_simps D_step_forward
      bind_err_def index_traj3 slice_fill_def ior_shifted_def inplace_broadcast_def
      broadcast2_def Let_def)

lemma iter1_traj3:
  "rollback_iter D_step (1/2) (1/2) [3] 1 ([False, True, True], buf_traj3\<lparr>weight := [0, 1, 1]\<rparr>, 1/2)
     = Inr ([True, True, True], buf_traj3\<lparr>weight := [1/2, 1, 1]\<rparr>, 1/4)"
  by (simp add: rollback_iter_def Discriminator_call_def buf_traj3_simps D_step_forward
      bind_err_def index_traj3 slice_fill_def ior_shifted_def inplace_broadcast_def
      broadcast2_def Let_def)

lemma loop_traj3:
  "rollback_loop D_step (1/2) (1/2) [3] 2 ([False, False, True], buf_traj3\<lparr>weight := [0, 0, 0]\<rparr>, 1)
     = Inr ([True, True, True], buf_traj3\<lparr>weight := [1/2, 1, 1]\<rparr>, 1/4)"
proof -
  have "rollback_loop D_step (1/2) (1/2) [3] (Suc (Suc 0)) ([False, False, True], buf_traj3\<lparr>weight := [0, 0, 0]\<rparr>, 1)
     = Inr ([True, True, True], buf_traj3\<lparr>weight := [1/2, 1, 1]\<rparr>, 1/4)"
    using iter0_traj3 iter1_traj3 by (simp add: bind_err_def)
  then show ?thesis by (simp add: numeral_2_eq_2)
qed

lemma select_traj3:
  "select_data_from_mask D_step buf_traj3 [False, False, True] (1/2) 2 (1/2) 1
     = Inr (buf_traj3\<lparr>weight := [1/2, 1, 1]\<rparr>)"
  unfolding select_data_from_mask_def anchor_done_traj3
  by (simp add: bind_err_def buf_traj3_simps loop_traj3 mask_rows_def)

lemma mask_rows_all3: "length col = 3 \<Longrightarrow> mask_rows col [True, True, True] = Inr col"
proof -
  assume "length col = 3"
  then obtain a b c where "col = [a, b, c]"
    by (auto simp: numeral_3_eq_3 length_Suc_conv)
  then show ?thesis by (simp add: mask_rows_def)
qed

text \<open>
  C4. On a buffer that holds one trajectory of three transitions with weights 1,
  when only the last transition is in the base mask and only the last (state, action) pair
  scores at least \<open>bar\<close>, lines 498--525 of \<open>select_data\<close> with \<open>bar = 0.5\<close>, \<open>rollback = 2\<close>,
  \<open>decay = 0.5\<close> and \<open>weight_init = 1.0\<close> retain all three transitions with the weights
  0.5, 1.0 and 1.0: the transition one step back gets \<open>weight_init\<close> in iteration 0, the
  transition two steps back gets \<open>weight_init * decay\<close> in iteration 1.
\<close>

theorem select_data_three_step_weights:
  assumes d: "Discriminator_forward D (state buf) (action buf) = Inr d"
    and ix: "ge_bar d (1/2) = [False, False, True]"
    and nd: "not_done buf = [n0, n1, n2]" "n0 \<noteq> 0" "n1 \<noteq> 0"
    and tm: "timeout buf = [t0, t1, t2]" "t0 \<noteq> 1" "t1 \<noteq> 1"
    and w: "weight buf = [1, 1, 1]"
    and len: "length (state buf) = 3" "length (action buf) = 3" "length (next_state buf) = 3"
      "length (reward buf) = 3" "length (flag buf) = 3"
  shows "select_data_from_mask D buf [False, False, True] (1/2) 2 (1/2) 1
           = Inr (buf\<lparr>not_done := [n0, n1, 0], weight := [1/2, 1, 1], size_buf := 3\<rparr>)"
proof -
  let ?b = "buf\<lparr>not_done := [n0, n1, 0]\<rparr>"
  have anchor: "anchor_done buf = Inr (?b, [3])"
    using nd tm by (simp add: anchor_done_def set_last_def broadcast2_def where_plus_one_def
        bind_err_def)
  have it0: "rollback_iter D (1/2) (1/2) [3] 0 ([False, False, True], ?b\<lparr>weight := [0, 0, 0]\<rparr>, 1)
     = Inr ([False, True, True], ?b\<lparr>weight := [0, 1, 1]\<rparr>, 1/2)"
    by (simp add: rollback_iter_def Discriminator_call_def d ix
      bind_err_def slice_fill_def ior_shifted_def inplace_broadcast_def
      broadcast2_def Let_def)
  have it1: "rollback_iter D (1/2) (1/2) [3] 1 ([False, True, True], ?b\<lparr>weight := [0, 1, 1]\<rparr>, 1/2)
     = Inr ([True, True, True], ?b\<lparr>weight := [1/2, 1, 1]\<rparr>, 1/4)"
    by (simp add: rollback_iter_def Discriminator_call_def d ix
      bind_err_def slice_fill_def ior_shifted_def inplace_broadcast_def
      broadcast2_def Let_def)
  have "rollback_loop D (1/2) (1/2) [3] (Suc (Suc 0)) ([False, False, True], ?b\<lparr>weight := [0, 0, 0]\<rparr>, 1)
     = Inr ([True, True, True], ?b\<lparr>weight := [1/2, 1, 1]\<rparr>, 1/4)"
    using it0 it1 by (simp add: bind_err_def)
  then have loop: "rollback_loop D (1/2) (1/2) [3] 2 ([False, False, True], ?b\<lparr>weight := [0, 0, 0]\<rparr>, 1)
     = Inr ([True, True, True], ?b\<lparr>weight := [1/2, 1, 1]\<rparr>, 1/4)"
    by (simp add: numeral_2_eq_2)
  have nd3: "length [n0, n1, 0 :: real] = 3" and w3: "length [1/2, 1, 1 :: real] = 3" by simp_all
  show ?thesis
    unfolding select_data_from_mask_def anchor
    by (simp add: bind_err_def w loop mask_rows_all3 len mask_rows_all3 [OF nd3]
        mask_rows_all3 [OF w3])
qed

theorem select_data_three_step_weights_witness:
  "Discriminator_forward D_step (state buf_traj3) (action buf_traj3)
     = Inr [clip (sigmoid (- 1)) (1/10) (9/10), clip (sigmoid (- 1)) (1/10) (9/10),
            clip (sigmoid 1) (1/10) (9/10)] \<and>
   ge_bar [clip (sigmoid (- 1)) (1/10) (9/10), clip (sigmoid (- 1)) (1/10) (9/10),
            clip (sigmoid 1) (1/10) (9/10)] (1/2) = [False, False, True] \<and>
   not_done buf_traj3 = [1, 1, 0] \<and> timeout buf_traj3 = [0, 0, 0] \<and>
   weight buf_traj3 = [1, 1, 1] \<and>
   select_data_from_mask D_step buf_traj3 [False, False, True] (1/2) 2 (1/2) 1
     = Inr (buf_traj3\<lparr>not_done := [1, 1, 0], weight := [1/2, 1, 1], size_buf := 3\<rparr>)"
  using select_data_three_step_weights [of D_step buf_traj3, OF _ index_traj3, of 1 1 0 0 0 0]
  by (simp add: buf_traj3_simps D_step_forward index_traj3)

text \<open>
  The weights 0.5, 0.5, 1.0 of the specification's scenario are not what the code gives on
  this input: \<open>select_data\<close> raises before it computes any weight, and the rollback loop run
  from the intended base mask gives the weights 0.5, 1.0, 1.0.
\<close>

theorem select_data_three_step_counterexample:
  "map_sum id weight (select_data D_step buf_traj3 (1/2) 2 (1/2) 1) \<noteq> Inr [1/2, 1/2, 1] \<and>
   map_sum id weight
     (select_data_from_mask D_step buf_traj3 [False, False, True] (1/2) 2 (1/2) 1)
     = Inr [1/2, 1, 1]"
  by (simp add: select_traj3 select_data_def Discriminator_call_def bind_err_def)


section \<open>The rollback loop on the three-step trajectory\<close>

theorem select_data_raises_witness:
  "select_data D_step buf_traj3 (1/2) 2 (1/2) 1 = Inl TypeError"
  using select_data_raises [of D_step buf_traj3 "1/2" 2 "1/2" 1] by simp

lemma loop1_traj3:
  "rollback_loop D_step (1/2) (1/2) [3] (Suc 0) ([False, False, True], buf_traj3\<lparr>weight := [0, 0, 0]\<rparr>, 1)
     = Inr ([False, True, True], buf_traj3\<lparr>weight := [0, 1, 1]\<rparr>, 1/2)"
  using iter0_traj3 by (simp add: bind_err_def)

lemma loop2_traj3:
  "rollback_loop D_step (1/2) (1/2) [3] (Suc (Suc 0)) ([False, False, True], buf_traj3\<lparr>weight := [0, 0, 0]\<rparr>, 1)
     = Inr ([True, True, True], buf_traj3\<lparr>weight := [1/2, 1, 1]\<rparr>, 1/4)"
  using loop_traj3 by (simp add: numeral_2_eq_2)

theorem rollback_weights_monotone_witness:
  "rollback_loop D_step (1/2) (1/2) [3] (Suc (Suc 0))
       ([False, False, True], buf_traj3\<lparr>weight := [0, 0, 0]\<rparr>, 1)
     = Inr ([True, True, True], buf_traj3\<lparr>weight := [1/2, 1, 1]\<rparr>, 1/4) \<and>
   rollback_loop D_step (1/2) (1/2) [3] (Suc 0)
       ([False, False, True], buf_traj3\<lparr>weight := [0, 0, 0]\<rparr>, 1)
     = Inr ([False, True, True], buf_traj3\<lparr>weight := [0, 1, 1]\<rparr>, 1 * (1/2) ^ Suc 0) \<and>
   [0, 1, 1 :: real] ! 0 \<le> [1/2, 1, 1] ! 0 \<and> [0, 1, 1 :: real] ! 0 < 1 * (1/2) ^ Suc 0 \<and>
   [1/2, 1, 1 :: real] ! 0 = 1 * (1/2) ^ Suc 0 \<and>
   [0, 1, 1 :: real] ! 1 \<le> [1/2, 1, 1] ! 1 \<and> [0, 1, 1 :: real] ! 2 \<le> [1/2, 1, 1] ! 2"
  using rollback_weights_monotone [OF loop2_traj3] loop1_traj3 loop2_traj3 by simp

lemma buf_traj22_simps:
  "state buf_traj22 = [[2], [2], [2], [2]]" "action buf_traj22 = [[0], [0], [0], [0]]"
  "not_done buf_traj22 = [1, 0, 1, 0]" "weight buf_traj22 = [1, 1, 1, 1]"
  "timeout buf_traj22 = [0, 0, 0, 0]"
  by (simp_all add: buf_traj22_def convert_d4rl_def)

lemma D_step_forward22:
  "Discriminator_forward D_step [[2], [2], [2], [2]] [[0], [0], [0], [0]]
     = Inr [clip (sigmoid 1) (1/10) (9/10), clip (sigmoid 1) (1/10) (9/10),
            clip (sigmoid 1) (1/10) (9/10), clip (sigmoid 1) (1/10) (9/10)]"
  by (simp add: Discriminator_forward_def Discriminator_row_def Linear_forward_def
      cat_dim1_def bind_err_def D_step_def dot_def relu_def)

lemma index_traj22:
  "ge_bar [clip (sigmoid 1) (1/10) (9/10), clip (sigmoid 1) (1/10) (9/10),
            clip (sigmoid 1) (1/10) (9/10), clip (sigmoid 1) (1/10) (9/10)] (1/2)
     = [True, True, True, True]"
  unfolding ge_bar_def by (simp only: list.map passes_half) simp

lemma anchor_done_traj22: "anchor_done buf_traj22 = Inr (buf_traj22, [2, 4])"
  by (simp add: anchor_done_def set_last_def broadcast2_def where_plus_one_def bind_err_def
      buf_traj22_simps upt_rec [of 0] upt_rec [of 1] upt_rec [of 2] upt_rec [of 3])

lemma iter0_traj22:
  "rollback_iter D_step (1/2) (1/2) [2, 4] 0
       ([False, False, False, False], buf_traj22\<lparr>weight := [0, 0, 0, 0]\<rparr>, 1)
     = Inr ([True, False, True, False], buf_traj22\<lparr>weight := [1, 0, 1, 0]\<rparr>, 1/2)"
  by (simp add: rollback_iter_def Discriminator_call_def buf_traj22_simps D_step_forward22
      bind_err_def index_traj22 slice_fill_def ior_shifted_def inplace_broadcast_def
      broadcast2_def Let_def)

text \<open>
  Two trajectories of two transitions, every transition scoring above \<open>bar\<close>: in iteration 0
  the first transition of each trajectory is retained on account of its successor, and the
  last transition of the first trajectory is not retained, although the transition after
  it scores above \<open>bar\<close>, because the boundary 2 lies between them.
\<close>

theorem rollback_mask_boundary_safe_witness:
  "anchor_done buf_traj22 = Inr (buf_traj22, [2, 4]) \<and>
   rollback_iter D_step (1/2) (1/2) [2, 4] 0
       ([False, False, False, False], buf_traj22\<lparr>weight := [0, 0, 0, 0]\<rparr>, 1)
     = Inr ([True, False, True, False], buf_traj22\<lparr>weight := [1, 0, 1, 0]\<rparr>, 1/2) \<and>
   (1/2 :: real) \<le> clip (sigmoid 1) (1/10) (9/10) \<and>
   [True, False, True, False] ! 0 =
     ([False, False, False, False] ! 0 \<or>
      (0 + 0 + 1 < length [False, False, False, False] \<and>
       (1/2 :: real) \<le> clip (sigmoid 1) (1/10) (9/10) \<and>
       ((2 :: nat) \<le> 0 \<or> 0 + 0 + 1 < (2 :: nat)) \<and> ((4 :: nat) \<le> 0 \<or> 0 + 0 + 1 < (4 :: nat)))) \<and>
   [True, False, True, False] ! 1 =
     ([False, False, False, False] ! 1 \<or>
      (1 + 0 + 1 < length [False, False, False, False] \<and>
       (1/2 :: real) \<le> clip (sigmoid 1) (1/10) (9/10) \<and>
       ((2 :: nat) \<le> 1 \<or> 1 + 0 + 1 < (2 :: nat)) \<and> ((4 :: nat) \<le> 1 \<or> 1 + 0 + 1 < (4 :: nat)))) \<and>
   [True, False, True, False] ! 1 = False"
proof -
  have d: "Discriminator_forward D_step (state (buf_traj22\<lparr>weight := [0, 0, 0, 0]\<rparr>))
             (action (buf_traj22\<lparr>weight := [0, 0, 0, 0]\<rparr>))
     = Inr [clip (sigmoid 1) (1/10) (9/10), clip (sigmoid 1) (1/10) (9/10),
            clip (sigmoid 1) (1/10) (9/10), clip (sigmoid 1) (1/10) (9/10)]"
    by (simp add: buf_traj22_simps D_step_forward22)
  have p: "(1/2 :: real) \<le> clip (sigmoid 1) (1/10) (9/10)" unfolding passes_half by simp
  note inst = rollback_mask_boundary_safe [OF anchor_done_traj22 iter0_traj22 d]
  have "length (timeout buf_traj22) = length (not_done buf_traj22)"
    by (simp add: buf_traj22_simps)
  from inst [OF this] have all:
    "\<forall>i<length [False, False, False, False]. [True, False, True, False] ! i =
        ([False, False, False, False] ! i \<or>
         (i + 0 + 1 < length [False, False, False, False] \<and>
          1/2 \<le> [clip (sigmoid 1) (1/10) (9/10), clip (sigmoid 1) (1/10) (9/10),
            clip (sigmoid 1) (1/10) (9/10), clip (sigmoid 1) (1/10) (9/10)] ! (i + 0 + 1) \<and>
          (\<forall>e\<in>set [2, 4]. e \<le> i \<or> i + 0 + 1 < e)))"
    by (simp add: buf_traj22_simps)
  from all [rule_format, of 0] all [rule_format, of 1] p anchor_done_traj22 iter0_traj22
  show ?thesis by simp
qed


section \<open>Sampling from the buffer\<close>

lemma randint_Inr:
  "randint 0 n b gen = Inr ind \<Longrightarrow> length ind = nat b \<and> (\<forall>i\<in>set ind. i < n)"
  by (auto simp: randint_def split: if_splits)

lemma index_rows_ok:
  "\<forall>i\<in>set ind. i < n \<Longrightarrow> n \<le> length col \<Longrightarrow> index_rows col ind = Inr (map ((!) col) ind)"
  by (auto simp: index_rows_def list_all_iff)

lemma sample_rows:
  assumes "1 \<le> size_buf buf" and "0 \<le> batch_size" and "columns_ge_size buf"
  shows "\<exists>ind. int (length ind) = batch_size \<and> (\<forall>i\<in>set ind. i < size_buf buf) \<and>
           sample buf batch_size gen =
             Inr (map ((!) (state buf)) ind, map ((!) (action buf)) ind,
                  map ((!) (next_state buf)) ind, map ((!) (reward buf)) ind,
                  map ((!) (not_done buf)) ind, map ((!) (flag buf)) ind,
                  map ((!) (weight buf)) ind, map ((!) (timeout buf)) ind)"
proof -
  define ind where "ind = map (\<lambda>j. 0 + gen j mod (size_buf buf - 0)) [0..<nat batch_size]"
  from assms have pos: "0 < size_buf buf" and ge: "columns_ge_size buf" by simp_all
  have r: "randint 0 (size_buf buf) batch_size gen = Inr ind"
    using pos assms(2) by (simp add: randint_def ind_def)
  have lt: "\<forall>i\<in>set ind. i < size_buf buf" using pos by (simp add: ind_def)
  note ok = index_rows_ok [OF lt]
  from ge have c:
    "index_rows (state buf) ind = Inr (map ((!) (state buf)) ind)"
    "index_rows (action buf) ind = Inr (map ((!) (action buf)) ind)"
    "index_rows (next_state buf) ind = Inr (map ((!) (next_state buf)) ind)"
    "index_rows (reward buf) ind = Inr (map ((!) (reward buf)) ind)"
    "index_rows (not_done buf) ind = Inr (map ((!) (not_done buf)) ind)"
    "index_rows (flag buf) ind = Inr (map ((!) (flag buf)) ind)"
    "index_rows (weight buf) ind = Inr (map ((!) (weight buf)) ind)"
    "index_rows (timeout buf) ind = Inr (map ((!) (timeout buf)) ind)"
    by (simp_all add: ok columns_ge_size_def)
  have "sample buf batch_size gen =
         Inr (map ((!) (state buf)) ind, map ((!) (action buf)) ind,
              map ((!) (next_state buf)) ind, map ((!) (reward buf)) ind,
              map ((!) (not_done buf)) ind, map ((!) (flag buf)) ind,
              map ((!) (weight buf)) ind, map ((!) (timeout buf)) ind)"
    by (simp add: sample_def r c bind_err_def)
  moreover have "int (length ind) = batch_size" using assms(2) by (simp add: ind_def)
  ultimately show ?thesis using lt by blast
qed

text \<open>
  C10. \<open>sample\<close> needs a non-empty buffer: with \<open>size = 0\<close>, as in a freshly constructed
  buffer, \<open>sample\<close> raises for every batch size, the indices being drawn from the empty
  range. With \<open>size \<ge> 1\<close> it returns \<open>batch_size\<close> rows, each read at an index below \<open>size\<close>,
  when \<open>batch_size\<close> is not negative and every column has at least \<open>size\<close> rows, as after
  \<open>convert_d4rl\<close> on a dataset whose columns have equally many rows; a negative
  \<open>batch_size\<close> raises.
\<close>

theorem sample_needs_rows:
  "(size_buf buf = 0 \<longrightarrow> sample buf batch_size gen = Inl RuntimeError) \<and>
   sample (ReplayBuffer_init state_dim action_dim max_sz) batch_size gen = Inl RuntimeError \<and>
   (batch_size < 0 \<longrightarrow> sample buf batch_size gen = Inl RuntimeError) \<and>
   (length (observations ds) = n \<and> length (actions ds) = n \<and>
    length (next_observations ds) = n \<and> length (rewards ds) = n \<and>
    length (terminals ds) = n \<and> length (timeouts ds) = n \<and> length (flags ds) = n \<longrightarrow>
      columns_ge_size (convert_d4rl buf0 ds)) \<and>
   (1 \<le> size_buf buf \<and> 0 \<le> batch_size \<and> columns_ge_size buf \<longrightarrow>
      (\<exists>ind. int (length ind) = batch_size \<and> (\<forall>i\<in>set ind. i < size_buf buf) \<and>
         sample buf batch_size gen =
           Inr (map ((!) (state buf)) ind, map ((!) (action buf)) ind,
                map ((!) (next_state buf)) ind, map ((!) (reward buf)) ind,
                map ((!) (not_done buf)) ind, map ((!) (flag buf)) ind,
                map ((!) (weight buf)) ind, map ((!) (timeout buf)) ind)))"
proof (intro conjI impI)
  show "sample buf batch_size gen = Inl RuntimeError" if "size_buf buf = 0"
    using that by (simp add: sample_def randint_def bind_err_def)
  show "sample (ReplayBuffer_init state_dim action_dim max_sz) batch_size gen = Inl RuntimeError"
    by (simp add: sample_def randint_def bind_err_def ReplayBuffer_init_def)
  show "sample buf batch_size gen = Inl RuntimeError" if "batch_size < 0"
    using that by (simp add: sample_def randint_def bind_err_def)
  show "columns_ge_size (convert_d4rl buf0 ds)"
    if "length (observations ds) = n \<and> length (actions ds) = n \<and>
    length (next_observations ds) = n \<and> length (rewards ds) = n \<and>
    length (terminals ds) = n \<and> length (timeouts ds) = n \<and> length (flags ds) = n"
    using that by (simp add: columns_ge_size_def convert_d4rl_def)
  show "\<exists>ind. int (length ind) = batch_size \<and> (\<forall>i\<in>set ind. i < size_buf buf) \<and>
         sample buf batch_size gen =
           Inr (map ((!) (state buf)) ind, map ((!) (action buf)) ind,
                map ((!) (next_state buf)) ind, map ((!) (reward buf)) ind,
                map ((!) (not_done buf)) ind, map ((!) (flag buf)) ind,
                map ((!) (weight buf)) ind, map ((!) (timeout buf)) ind)"
    if "1 \<le> size_buf buf \<and> 0 \<le> batch_size \<and> columns_ge_size buf"
    using that sample_rows by blast
qed

lemma upt_0_2: "[0..<2] = [0, Suc 0]"
  by (simp add: numeral_2_eq_2)

lemma sample_buf_traj3:
  "sample buf_traj3 2 (\<lambda>j. 5 * j + 1)
     = Inr ([[0], [0]], [[0], [0]], [[2], [0]], [0, 0], [1, 1], [0, 0], [1, 1], [0, 0])"
  by (simp add: sample_def randint_def index_rows_def bind_err_def buf_traj3_simps upt_0_2)

theorem sample_needs_rows_witness:
  "size_buf (ReplayBuffer_init 1 1 3) = 0 \<and>
   sample (ReplayBuffer_init 1 1 3) 2 (\<lambda>j. j) = Inl RuntimeError \<and>
   sample buf_traj3 (- 1) (\<lambda>j. 5 * j + 1) = Inl RuntimeError \<and>
   columns_ge_size (convert_d4rl (ReplayBuffer_init 1 1 3) ds_two) \<and>
   1 \<le> size_buf buf_traj3 \<and> (0 :: int) \<le> 2 \<and> columns_ge_size buf_traj3 \<and>
   (\<exists>ind. int (length ind) = 2 \<and>
      sample buf_traj3 2 (\<lambda>j. 5 * j + 1) =
        Inr (map ((!) (state buf_traj3)) ind, map ((!) (action buf_traj3)) ind,
             map ((!) (next_state buf_traj3)) ind, map ((!) (reward buf_traj3)) ind,
             map ((!) (not_done buf_traj3)) ind, map ((!) (flag buf_traj3)) ind,
             map ((!) (weight buf_traj3)) ind, map ((!) (timeout buf_traj3)) ind)) \<and>
   sample buf_traj3 2 (\<lambda>j. 5 * j + 1)
     = Inr ([[0], [0]], [[0], [0]], [[2], [0]], [0, 0], [1, 1], [0, 0], [1, 1], [0, 0])"
proof -
  have ge: "columns_ge_size buf_traj3"
    by (simp add: columns_ge_size_def buf_traj3_simps)
  have ds: "length (observations ds_two) = 2 \<and> length (actions ds_two) = 2 \<and>
    length (next_observations ds_two) = 2 \<and> length (rewards ds_two) = 2 \<and>
    length (terminals ds_two) = 2 \<and> length (timeouts ds_two) = 2 \<and> length (flags ds_two) = 2"
    by (simp add: ds_two_def)
  note a = sample_needs_rows [of "ReplayBuffer_init 1 1 3" 2 "\<lambda>j. j" 1 1 3 ds_two 2
      "ReplayBuffer_init 1 1 3"]
  note b = sample_needs_rows [of buf_traj3 "- 1" "\<lambda>j. 5 * j + 1" 1 1 3 ds_two 2
      "ReplayBuffer_init 1 1 3"]
  note c = sample_needs_rows [of buf_traj3 2 "\<lambda>j. 5 * j + 1" 1 1 3 ds_two 2
      "ReplayBuffer_init 1 1 3"]
  have 0: "size_buf (ReplayBuffer_init 1 1 3) = 0" by (simp add: ReplayBuffer_init_def)
  from a 0 have 1: "sample (ReplayBuffer_init 1 1 3) 2 (\<lambda>j. j) = Inl RuntimeError" by blast
  from b have 2: "sample buf_traj3 (- 1) (\<lambda>j. 5 * j + 1) = Inl RuntimeError" by simp
  from a ds have 3: "columns_ge_size (convert_d4rl (ReplayBuffer_init 1 1 3) ds_two)" by blast
  have 4: "1 \<le> size_buf buf_traj3" by (simp add: buf_traj3_simps)
  have nn: "(0 :: int) \<le> 2" by simp
  from c 4 nn ge have 5: "\<exists>ind. int (length ind) = 2 \<and>
      sample buf_traj3 2 (\<lambda>j. 5 * j + 1) =
        Inr (map ((!) (state buf_traj3)) ind, map ((!) (action buf_traj3)) ind,
             map ((!) (next_state buf_traj3)) ind, map ((!) (reward buf_traj3)) ind,
             map ((!) (not_done buf_traj3)) ind, map ((!) (flag buf_traj3)) ind,
             map ((!) (weight buf_traj3)) ind, map ((!) (timeout buf_traj3)) ind)"
    by blast
  from 0 1 2 3 4 nn ge 5 sample_buf_traj3 show ?thesis by blast
qed

text \<open>
  With \<open>size \<ge> 1\<close> alone \<open>sample\<close> can still raise: \<open>convert_d4rl\<close> takes \<open>size\<close> from the
  observations, and a column with fewer rows is read out of range; and a negative batch
  size raises.
\<close>

theorem sample_size_counterexample:
  "1 \<le> size_buf buf_ragged \<and> sample buf_ragged 1 (\<lambda>j. 2) = Inl IndexError \<and>
   1 \<le> size_buf buf_traj3 \<and> sample buf_traj3 (- 1) (\<lambda>j. j) = Inl RuntimeError"
  by (simp add: sample_def randint_def index_rows_def bind_err_def buf_traj3_simps
      buf_ragged_def convert_d4rl_def ReplayBuffer_init_def)


section \<open>Column lengths and \<open>size\<close>\<close>

lemma length_filter_zip_snd:
  "length xs = length ys \<Longrightarrow> length (filter snd (zip xs ys)) = length (filter id ys)"
  by (induction xs ys rule: list_induct2) simp_all

lemma mask_rows_length: "mask_rows col m = Inr r \<Longrightarrow> length r = length (filter id m)"
  by (auto simp: mask_rows_def length_filter_zip_snd split: if_splits)

lemma select_data_from_mask_Inr:
  assumes "select_data_from_mask D buf msk bar rollback decay weight_init = Inr buf'"
  shows "\<exists>buf1 done_ix msk' b wd s a ns r nd f w.
           anchor_done buf = Inr (buf1, done_ix) \<and>
           rollback_loop D bar decay done_ix rollback
             (msk, buf1\<lparr>weight := map (\<lambda>w. w - 1) (weight buf1)\<rparr>, weight_init) = Inr (msk', b, wd) \<and>
           mask_rows (state b) msk' = Inr s \<and> mask_rows (action b) msk' = Inr a \<and>
           mask_rows (next_state b) msk' = Inr ns \<and> mask_rows (reward b) msk' = Inr r \<and>
           mask_rows (not_done b) msk' = Inr nd \<and> mask_rows (flag b) msk' = Inr f \<and>
           mask_rows (weight b) msk' = Inr w \<and>
           buf' = b\<lparr>state := s, action := a, next_state := ns, reward := r, not_done := nd,
              flag := f, weight := w, size_buf := length s\<rparr>"
  using assms
  by (auto simp: select_data_from_mask_def bind_err_Inr_iff Let_def)

text \<open>
  C3. After \<open>convert_d4rl\<close> on a dataset whose columns have \<open>n\<close> rows, and after
  \<open>add_transitions\<close> on two buffers that satisfy it, every column of the buffer has exactly
  \<open>size\<close> rows. After the rollback and filter stage of \<open>select_data\<close> the columns \<open>state\<close>,
  \<open>action\<close>, \<open>next_state\<close>, \<open>reward\<close>, \<open>not_done\<close>, \<open>flag\<close> and \<open>weight\<close> have exactly \<open>size\<close>
  rows, and \<open>size\<close> is the number of transitions that the final mask retains.
\<close>

theorem buffer_columns_match_size:
  "(length (observations ds) = n \<and> length (actions ds) = n \<and>
    length (next_observations ds) = n \<and> length (rewards ds) = n \<and>
    length (terminals ds) = n \<and> length (timeouts ds) = n \<and> length (flags ds) = n \<longrightarrow>
      columns_eq_size (convert_d4rl buf ds) \<and> size_buf (convert_d4rl buf ds) = n) \<and>
   (columns_eq_size buf_a \<and> columns_eq_size buf_b \<longrightarrow>
      columns_eq_size (add_transitions buf_a buf_b) \<and>
      size_buf (add_transitions buf_a buf_b) = size_buf buf_a + size_buf buf_b) \<and>
   (select_data_from_mask D buf_s msk bar rollback decay weight_init = Inr buf' \<longrightarrow>
      length (state buf') = size_buf buf' \<and> length (action buf') = size_buf buf' \<and>
      length (next_state buf') = size_buf buf' \<and> length (reward buf') = size_buf buf' \<and>
      length (not_done buf') = size_buf buf' \<and> length (flag buf') = size_buf buf' \<and>
      length (weight buf') = size_buf buf' \<and>
      (\<exists>buf1 done_ix msk' b wd.
          anchor_done buf_s = Inr (buf1, done_ix) \<and>
          rollback_loop D bar decay done_ix rollback
            (msk, buf1\<lparr>weight := map (\<lambda>w. w - 1) (weight buf1)\<rparr>, weight_init) = Inr (msk', b, wd) \<and>
          size_buf buf' = length (filter id msk')))"
proof (intro conjI impI)
  assume "length (observations ds) = n \<and> length (actions ds) = n \<and>
    length (next_observations ds) = n \<and> length (rewards ds) = n \<and>
    length (terminals ds) = n \<and> length (timeouts ds) = n \<and> length (flags ds) = n"
  then show "columns_eq_size (convert_d4rl buf ds)" and "size_buf (convert_d4rl buf ds) = n"
    by (simp_all add: columns_eq_size_def convert_d4rl_def)
next
  assume "columns_eq_size buf_a \<and> columns_eq_size buf_b"
  then show "columns_eq_size (add_transitions buf_a buf_b)"
    and "size_buf (add_transitions buf_a buf_b) = size_buf buf_a + size_buf buf_b"
    by (simp_all add: columns_eq_size_def add_transitions_def)
next
  assume sel: "select_data_from_mask D buf_s msk bar rollback decay weight_init = Inr buf'"
  from select_data_from_mask_Inr [OF sel] obtain buf1 done_ix msk' b wd s a ns r nd f w where
    an: "anchor_done buf_s = Inr (buf1, done_ix)" and
    lp: "rollback_loop D bar decay done_ix rollback
           (msk, buf1\<lparr>weight := map (\<lambda>w. w - 1) (weight buf1)\<rparr>, weight_init) = Inr (msk', b, wd)" and
    rows: "mask_rows (state b) msk' = Inr s" "mask_rows (action b) msk' = Inr a"
      "mask_rows (next_state b) msk' = Inr ns" "mask_rows (reward b) msk' = Inr r"
      "mask_rows (not_done b) msk' = Inr nd" "mask_rows (flag b) msk' = Inr f"
      "mask_rows (weight b) msk' = Inr w" and
    buf': "buf' = b\<lparr>state := s, action := a, next_state := ns, reward := r, not_done := nd,
              flag := f, weight := w, size_buf := length s\<rparr>"
    by blast
  note lens = rows [THEN mask_rows_length]
  show "length (state buf') = size_buf buf'" "length (action buf') = size_buf buf'"
    "length (next_state buf') = size_buf buf'" "length (reward buf') = size_buf buf'"
    "length (not_done buf') = size_buf buf'" "length (flag buf') = size_buf buf'"
    "length (weight buf') = size_buf buf'"
    by (simp_all add: buf' lens)
  have "size_buf buf' = length (filter id msk')" by (simp add: buf' lens)
  with an lp show "\<exists>buf1 done_ix msk' b wd.
          anchor_done buf_s = Inr (buf1, done_ix) \<and>
          rollback_loop D bar decay done_ix rollback
            (msk, buf1\<lparr>weight := map (\<lambda>w. w - 1) (weight buf1)\<rparr>, weight_init) = Inr (msk', b, wd) \<and>
          size_buf buf' = length (filter id msk')"
    by blast
qed

lemma select_traj3_rollback0:
  "select_data_from_mask D_step buf_traj3 [False, False, True] (1/2) 0 (1/2) 1
     = Inr (buf_traj3\<lparr>state := [[2]], action := [[0]], next_state := [[3]], reward := [0],
              not_done := [0], flag := [0], weight := [0], size_buf := 1\<rparr>)"
  unfolding select_data_from_mask_def anchor_done_traj3
  by (simp add: bind_err_def buf_traj3_simps mask_rows_def)

text \<open>
  The invariant does not hold after every operation: a freshly constructed buffer has
  \<open>max_size\<close> rows in every column and \<open>size = 0\<close>; and the filter of \<open>select_data\<close> leaves
  the \<open>timeout\<close> column at its old length.
\<close>

theorem buffer_columns_counterexample:
  "\<not> columns_eq_size (ReplayBuffer_init 1 1 3) \<and>
   map_sum id (\<lambda>b. (size_buf b, length (state b), length (timeout b)))
     (select_data_from_mask D_step buf_traj3 [False, False, True] (1/2) 0 (1/2) 1)
     = Inr (1, 1, 3)"
  by (simp add: select_traj3_rollback0 buf_traj3_simps columns_eq_size_def ReplayBuffer_init_def)

theorem buffer_columns_match_size_witness:
  "columns_eq_size (convert_d4rl (ReplayBuffer_init 1 1 3) ds_two) \<and>
   size_buf (convert_d4rl (ReplayBuffer_init 1 1 3) ds_two) = 2 \<and>
   columns_eq_size buf_traj3 \<and>
   columns_eq_size (add_transitions buf_traj3 (convert_d4rl (ReplayBuffer_init 1 1 3) ds_two)) \<and>
   size_buf (add_transitions buf_traj3 (convert_d4rl (ReplayBuffer_init 1 1 3) ds_two)) = 5 \<and>
   select_data_from_mask D_step buf_traj3 [False, False, True] (1/2) 0 (1/2) 1
     = Inr (buf_traj3\<lparr>state := [[2]], action := [[0]], next_state := [[3]], reward := [0],
              not_done := [0], flag := [0], weight := [0], size_buf := 1\<rparr>) \<and>
   length (weight (buf_traj3\<lparr>state := [[2]], action := [[0]], next_state := [[3]], reward := [0],
              not_done := [0], flag := [0], weight := [0], size_buf := 1\<rparr>)) = 1"
proof -
  have a: "length (observations ds_two) = 2 \<and> length (actions ds_two) = 2 \<and>
    length (next_observations ds_two) = 2 \<and> length (rewards ds_two) = 2 \<and>
    length (terminals ds_two) = 2 \<and> length (timeouts ds_two) = 2 \<and> length (flags ds_two) = 2"
    by (simp add: ds_two_def)
  have b: "columns_eq_size buf_traj3"
    by (simp add: columns_eq_size_def buf_traj3_simps)
  note inst = buffer_columns_match_size [of ds_two 2 "ReplayBuffer_init 1 1 3" buf_traj3
      "convert_d4rl (ReplayBuffer_init 1 1 3) ds_two" D_step buf_traj3 "[False, False, True]"
      "1/2" 0 "1/2" 1]
  from inst a have c: "columns_eq_size (convert_d4rl (ReplayBuffer_init 1 1 3) ds_two)"
    and c2: "size_buf (convert_d4rl (ReplayBuffer_init 1 1 3) ds_two) = 2" by blast+
  from inst b c have d: "columns_eq_size (add_transitions buf_traj3 (convert_d4rl (ReplayBuffer_init 1 1 3) ds_two))"
    and d2: "size_buf (add_transitions buf_traj3 (convert_d4rl (ReplayBuffer_init 1 1 3) ds_two))
       = size_buf buf_traj3 + size_buf (convert_d4rl (ReplayBuffer_init 1 1 3) ds_two)" by blast+
  from inst select_traj3_rollback0
  have e: "length (weight (buf_traj3\<lparr>state := [[2]], action := [[0]], next_state := [[3]],
              reward := [0], not_done := [0], flag := [0], weight := [0], size_buf := 1\<rparr>))
           = size_buf (buf_traj3\<lparr>state := [[2]], action := [[0]], next_state := [[3]],
              reward := [0], not_done := [0], flag := [0], weight := [0], size_buf := 1\<rparr>)"
    by blast
  from b c c2 d d2 e select_traj3_rollback0 show ?thesis by (simp add: buf_traj3_simps)
qed


section \<open>The losses of \<open>train_policy\<close>\<close>

lemma sum_list_concat_outer:
  "sum_list (concat (map (\<lambda>w. map (\<lambda>x. x * w) v) c)) = sum_list v * sum_list (c :: real list)"
  by (induction c) (simp_all add: sum_list_mult_const sum_list_const_mult algebra_simps)

lemma length_concat_outer:
  "length (concat (map (\<lambda>w. map (\<lambda>x. x * w) v) c)) = length c * length v"
  by (induction c) simp_all

text \<open>
  The product of the summed log-densities, of shape \<open>(B,)\<close>, with the weights, of shape
  \<open>(B, 1)\<close>, is the \<open>B\<close> by \<open>B\<close> table of all products: its mean is the product of the two means.
\<close>

lemma mean_all_mul_vec_col: "mean_all (mul_vec_col v c) = mean v * mean c"
  by (simp add: mean_all_def mul_vec_col_def mean_def sum_list_concat_outer length_concat_outer)

lemma sample_buf_weighted:
  "sample buf_weighted 2 (\<lambda>j. j)
     = Inr ([[- 1], [- 3]], [[0], [0]], [[- 3], [0]], [0, 0], [1, 0], [0, 0], [1/2, 1], [0, 0])"
  by (simp add: sample_def randint_def index_rows_def bind_err_def buf_weighted_def
      convert_d4rl_def ReplayBuffer_init_def upt_0_2)

lemma sample_buf_expert:
  "sample buf_expert 2 (\<lambda>j. j)
     = Inr ([[0], [0]], [[0], [0]], [[0], [0]], [0, 0], [1, 0], [1, 1], [1, 1], [0, 0])"
  by (simp add: sample_def randint_def index_rows_def bind_err_def buf_expert_def
      convert_d4rl_def ReplayBuffer_init_def upt_0_2)

text \<open>
  C7. The specification asks for \<open>alpha_loss = alpha * (mean(log_pi) + epsilon -
  mean(log_pi_e))\<close> with \<open>alpha = exp(log_alpha)\<close>, and for the policy loss
  \<open>mean(-sum(log_pi_s) * weight_s) - alpha * mean(sum(log_pi_e))\<close>, the first term weighted
  sample by sample. On a minibatch with the summed log-densities -1 and -3 and the weights
  0.5 and 1.0, \<open>train_policy\<close> returns the policy loss 3/2, where the specification's
  formula gives 7/4; \<open>alpha_loss\<close> and \<open>alpha\<close> are as specified.
\<close>

theorem train_policy_loss_not_per_sample:
  "train_policy M_id buf_weighted buf_expert 2 (\<lambda>j. j) (\<lambda>j. j)
     = Inr (M_id\<lparr>total_it := 1, alpha := 1\<rparr>, Some (1/100), 3/2) \<and>
   p_loss_spec 2 ((!) [- 1, - 3]) ((!) [1/2, 1]) 1 ((!) [0, 0]) = 7/4 \<and>
   alpha_loss_spec 0 (1/100) 2 ((!) [0, 0]) ((!) [0, 0]) = 1/100"
proof -
  have "train_policy M_id buf_weighted buf_expert 2 (\<lambda>j. j) (\<lambda>j. j)
     = Inr (M_id\<lparr>total_it := 1, alpha := 1\<rparr>, Some (1/100), 3/2)"
    unfolding train_policy_def
    by (simp add: sample_buf_weighted sample_buf_expert bind_err_def M_id_def Let_def
        alpha_and_alpha_loss_def sum_dim1_def mean_all_def mul_vec_col_def mean_def)
  moreover have "p_loss_spec 2 ((!) [- 1, - 3]) ((!) [1/2, 1]) 1 ((!) [0, 0]) = 7/4"
    by (simp add: p_loss_spec_def lessThan_Suc numeral_2_eq_2)
  moreover have "alpha_loss_spec 0 (1/100) 2 ((!) [0, 0]) ((!) [0, 0]) = 1/100"
    by (simp add: alpha_loss_spec_def lessThan_Suc numeral_2_eq_2)
  ultimately show ?thesis by blast
qed


section \<open>Requested counts in the trajectory splitters\<close>

lemma slice_to_clamp: "int (length xs) \<le> m \<Longrightarrow> slice_to xs m = xs"
  by (simp add: slice_to_def)

lemma dataset_m_trajs_clamp:
  assumes "int (trajectory_count ds t) \<le> m"
  shows "dataset_m_trajs ds m t = dataset_m_trajs ds (int (trajectory_count ds t)) t"
proof (cases "split_trajectories ds t")
  case (Inl e)
  then show ?thesis by (simp add: dataset_m_trajs_def bind_err_def)
next
  case (Inr trajs)
  obtain obs_traj a b c d e where trajs: "trajs = (obs_traj, a, b, c, d, e)"
    by (cases trajs) auto
  have n: "trajectory_count ds t = length obs_traj"
    by (simp add: trajectory_count_def Inr trajs)
  have eq: "slice_to [0..<length obs_traj] m
              = slice_to [0..<length obs_traj] (int (length obs_traj))"
    using assms by (simp add: n slice_to_clamp)
  show ?thesis
    by (simp only: dataset_m_trajs_def Inr trajs bind_err_def sum.case prod.case Let_def n eq)
qed

lemma dataset_split_expert_clamp:
  assumes "int (trajectory_count ds t) \<le> exp_num"
  shows "dataset_split_expert ds split_x exp_num t
           = dataset_split_expert ds split_x (int (trajectory_count ds t)) t"
proof (cases "split_trajectories ds t")
  case (Inl e)
  then show ?thesis by (simp add: dataset_split_expert_def bind_err_def)
next
  case (Inr trajs)
  obtain obs_traj a b c d e where trajs: "trajs = (obs_traj, a, b, c, d, e)"
    by (cases trajs) auto
  have n: "trajectory_count ds t = length obs_traj"
    by (simp add: trajectory_count_def Inr trajs)
  have eq: "slice_to [0..<length obs_traj] exp_num
              = slice_to [0..<length obs_traj] (int (length obs_traj))"
    using assms by (simp add: n slice_to_clamp)
  show ?thesis
    by (simp only: dataset_split_expert_def Inr trajs bind_err_def sum.case prod.case Let_def
        n eq)
qed

lemma split_loop_total:
  assumes "length (observations ds) = n" "length (actions ds) = n" "length (rewards ds) = n"
    "length (terminals ds) = n" "length (timeouts ds) = n"
  shows "m \<le> n - 1 \<Longrightarrow> \<exists>s'. split_loop ds t m s = Inr s'"
proof (induction m)
  case 0
  show ?case by (simp only: split_loop.simps) blast
next
  case (Suc m)
  then obtain s' where s': "split_loop ds t m s = Inr s'" by auto
  from Suc.prems have "m + 1 < n" by arith
  then have "\<exists>s''. split_step ds t m s' = Inr s''"
    using assms by (auto simp: split_step_def Let_def split: prod.splits)
  then show ?case by (simp add: s' bind_err_def)
qed

lemma concat_dataset_not_IndexError: "concat_dataset a b c d e f \<noteq> Inl IndexError"
  by (auto simp: concat_dataset_def concatenate_rows_def concatenate_scalars_def bind_err_def
      split: sum.splits if_splits)

lemma map_length_append_last:
  "ts \<noteq> [] \<Longrightarrow> map length (append_last ts x) = butlast (map length ts) @ [Suc (last (map length ts))]"
  by (simp add: append_last_def map_butlast last_map)

lemma append_last_not_Nil: "append_last ts x \<noteq> []"
  by (simp add: append_last_def)

lemma split_step_lengths:
  assumes "split_step ds t i (ob, nx, ac, rw, dn, tm) = Inr (ob', nx', ac', rw', dn', tm')"
    and "ob \<noteq> []" and "map length nx = map length ob" and "map length ac = map length ob"
    and "map length rw = map length ob" and "map length dn = map length ob"
    and "map length tm = map length ob"
  shows "ob' \<noteq> [] \<and> map length nx' = map length ob' \<and> map length ac' = map length ob' \<and>
         map length rw' = map length ob' \<and> map length dn' = map length ob' \<and>
         map length tm' = map length ob'"
proof -
  from assms(2-7) have ne: "nx \<noteq> []" "ac \<noteq> []" "rw \<noteq> []" "dn \<noteq> []" "tm \<noteq> []"
    by (metis map_is_Nil_conv)+
  from assms(1) show ?thesis
    using assms(2-7) ne
    by (auto simp: split_step_def Let_def map_length_append_last append_last_not_Nil
        split: if_splits)
qed

lemma split_loop_lengths:
  "split_loop ds t m ([[]], [[]], [[]], [[]], [[]], [[]]) = Inr (ob, nx, ac, rw, dn, tm) \<Longrightarrow>
     ob \<noteq> [] \<and> map length nx = map length ob \<and> map length ac = map length ob \<and>
     map length rw = map length ob \<and> map length dn = map length ob \<and>
     map length tm = map length ob"
proof (induction m arbitrary: ob nx ac rw dn tm)
  case 0
  then show ?case by auto
next
  case (Suc m)
  from Suc.prems obtain s where s: "split_loop ds t m ([[]], [[]], [[]], [[]], [[]], [[]]) = Inr s"
    and st: "split_step ds t m s = Inr (ob, nx, ac, rw, dn, tm)"
    by (auto simp: bind_err_Inr_iff)
  obtain ob0 nx0 ac0 rw0 dn0 tm0 where s0: "s = (ob0, nx0, ac0, rw0, dn0, tm0)"
    by (cases s) auto
  from Suc.IH [OF s [unfolded s0]] split_step_lengths [OF st [unfolded s0]]
  show ?case by blast
qed

lemma list_ex_empty_map_length:
  "list_ex (\<lambda>t. t = []) xs = list_ex (\<lambda>n. n = 0) (map length xs)"
  "list_ex (\<lambda>t. t \<noteq> []) xs = list_ex (\<lambda>n. n \<noteq> 0) (map length xs)"
  by (induction xs) simp_all

lemma concat_dataset_eq:
  assumes "ob \<noteq> []" and "map length nx = map length ob" and "map length ac = map length ob"
    and "map length rw = map length ob" and "map length dn = map length ob"
    and "map length tm = map length ob"
  shows "concat_dataset ob ac nx rw dn tm =
           (if list_ex (\<lambda>tr. tr = []) ob \<and> list_ex (\<lambda>tr. tr \<noteq> []) ob then Inl ValueError
            else Inr \<lparr>observations = concat ob, actions = concat ac, rewards = concat rw,
                      terminals = concat dn, timeouts = concat tm,
                      next_observations = concat nx\<rparr>)"
proof -
  from assms have ne: "nx \<noteq> []" "ac \<noteq> []" "rw \<noteq> []" "dn \<noteq> []" "tm \<noteq> []"
    by (metis map_is_Nil_conv)+
  have ex: "list_ex (\<lambda>t. t = []) ac = list_ex (\<lambda>t. t = []) ob"
    "list_ex (\<lambda>t. t \<noteq> []) ac = list_ex (\<lambda>t. t \<noteq> []) ob"
    "list_ex (\<lambda>t. t = []) nx = list_ex (\<lambda>t. t = []) ob"
    "list_ex (\<lambda>t. t \<noteq> []) nx = list_ex (\<lambda>t. t \<noteq> []) ob"
    by (simp_all only: list_ex_empty_map_length assms)
  show ?thesis
    using assms(1) ne
    by (simp add: concat_dataset_def concatenate_rows_def concatenate_scalars_def bind_err_def ex)
qed

lemma map_nth_same_length: "length xs = n \<Longrightarrow> map ((!) xs) [0..<n] = xs"
  by (auto simp: map_nth)

lemma dataset_m_trajs_all:
  assumes sp: "split_trajectories ds t = Inr (ob, nx, ac, rw, dn, tm)"
    and m: "int (length ob) \<le> m"
  shows "dataset_m_trajs ds m t =
           (if list_ex (\<lambda>tr. tr = []) ob \<and> list_ex (\<lambda>tr. tr \<noteq> []) ob then Inl ValueError
            else Inr \<lparr>observations = concat ob, actions = concat ac, rewards = concat rw,
                      terminals = concat dn, timeouts = concat tm,
                      next_observations = concat nx\<rparr>)"
proof -
  from sp have inv: "ob \<noteq> []" "map length nx = map length ob" "map length ac = map length ob"
    "map length rw = map length ob" "map length dn = map length ob" "map length tm = map length ob"
    using split_loop_lengths unfolding split_trajectories_def by blast+
  from inv(2-6) have len: "length nx = length ob" "length ac = length ob" "length rw = length ob"
    "length dn = length ob" "length tm = length ob"
    by (metis length_map)+
  have sl: "slice_to [0..<length ob] m = [0..<length ob]"
    using m by (simp add: slice_to_def)
  have "dataset_m_trajs ds m t = concat_dataset ob ac nx rw dn tm"
    by (simp add: dataset_m_trajs_def sp bind_err_def Let_def sl map_nth_same_length len
        map_nth_same_length [of ob])
  then show ?thesis by (simp only: concat_dataset_eq [OF inv])
qed

lemma split_raw_trailing:
  "split_trajectories raw_trailing False
     = Inr ([[[0], [1]], []], [[[1], [2]], []], [[[5], [6]], []], [[1, 1], []],
            [[False, True], []], [[False, False], []])"
  by (simp add: split_trajectories_def raw_trailing_def numeral_2_eq_2 bind_err_def
      split_step_def append_last_def Let_def)

text \<open>
  C8. The trajectory splitters do not compare the requested counts with the number of
  trajectories, and a count above that number does not raise by itself: the slice clamps
  it, so that \<open>dataset_m_trajs\<close> with \<open>m\<close> and \<open>dataset_split_expert\<close> with \<open>exp_num\<close> above the
  number of trajectories behave exactly as with that number, returning the same dataset
  or raising the same error, and on a dataset whose columns have equally many rows no
  count raises an out-of-range error. With such a count \<open>dataset_m_trajs\<close> returns the
  concatenation of all trajectories, unless an empty trajectory (the one left after a
  final terminal or timeout flag) stands beside a non-empty one: then \<open>np.concatenate\<close>
  raises \<open>ValueError\<close>.
\<close>

theorem split_counts_are_clamped:
  "(int (trajectory_count ds t) \<le> m \<longrightarrow>
      dataset_m_trajs ds m t = dataset_m_trajs ds (int (trajectory_count ds t)) t) \<and>
   (int (trajectory_count ds t) \<le> exp_num \<longrightarrow>
      dataset_split_expert ds split_x exp_num t
        = dataset_split_expert ds split_x (int (trajectory_count ds t)) t) \<and>
   (length (observations ds) = n \<and> length (actions ds) = n \<and> length (rewards ds) = n \<and>
    length (terminals ds) = n \<and> length (timeouts ds) = n \<longrightarrow>
      dataset_m_trajs ds m t \<noteq> Inl IndexError \<and>
      dataset_split_expert ds split_x exp_num t \<noteq> Inl IndexError) \<and>
   (split_trajectories ds t = Inr (ob, nx, ac, rw, dn, tm) \<and> int (length ob) \<le> m \<longrightarrow>
      dataset_m_trajs ds m t =
        (if list_ex (\<lambda>tr. tr = []) ob \<and> list_ex (\<lambda>tr. tr \<noteq> []) ob then Inl ValueError
         else Inr \<lparr>observations = concat ob, actions = concat ac, rewards = concat rw,
                   terminals = concat dn, timeouts = concat tm,
                   next_observations = concat nx\<rparr>))"
proof (intro conjI impI)
  show "dataset_m_trajs ds m t = dataset_m_trajs ds (int (trajectory_count ds t)) t"
    if "int (trajectory_count ds t) \<le> m"
    using that by (rule dataset_m_trajs_clamp)
  show "dataset_split_expert ds split_x exp_num t
        = dataset_split_expert ds split_x (int (trajectory_count ds t)) t"
    if "int (trajectory_count ds t) \<le> exp_num"
    using that by (rule dataset_split_expert_clamp)
  show "dataset_m_trajs ds m t =
        (if list_ex (\<lambda>tr. tr = []) ob \<and> list_ex (\<lambda>tr. tr \<noteq> []) ob then Inl ValueError
         else Inr \<lparr>observations = concat ob, actions = concat ac, rewards = concat rw,
                   terminals = concat dn, timeouts = concat tm,
                   next_observations = concat nx\<rparr>)"
    if "split_trajectories ds t = Inr (ob, nx, ac, rw, dn, tm) \<and> int (length ob) \<le> m"
    using that dataset_m_trajs_all by blast
next
  assume rect: "length (observations ds) = n \<and> length (actions ds) = n \<and>
    length (rewards ds) = n \<and> length (terminals ds) = n \<and> length (timeouts ds) = n"
  then have "\<exists>s'. split_loop ds t (length (rewards ds) - 1) ([[]], [[]], [[]], [[]], [[]], [[]]) = Inr s'"
    by (intro split_loop_total [of ds n]) simp_all
  then obtain s' where s': "split_trajectories ds t = Inr s'"
    by (auto simp: split_trajectories_def)
  show "dataset_m_trajs ds m t \<noteq> Inl IndexError"
    using concat_dataset_not_IndexError
    by (simp add: dataset_m_trajs_def s' bind_err_def Let_def split: prod.splits)
  show "dataset_split_expert ds split_x exp_num t \<noteq> Inl IndexError"
    using concat_dataset_not_IndexError
    by (auto simp: dataset_split_expert_def s' bind_err_def Let_def split: prod.splits sum.splits)
qed

lemma split_raw_three:
  "split_trajectories raw_three False
     = Inr ([[[0], [1]]], [[[1], [2]]], [[[5], [6]]], [[1, 1]], [[False, False]], [[False, False]])"
  by (simp add: split_trajectories_def raw_three_def numeral_2_eq_2 bind_err_def
      split_step_def append_last_def Let_def)

lemma m_trajs_raw_three:
  "dataset_m_trajs raw_three 5 False
     = Inr \<lparr>observations = [[0], [1]], actions = [[5], [6]], rewards = [1, 1],
            terminals = [False, False], timeouts = [False, False],
            next_observations = [[1], [2]]\<rparr>"
  by (simp add: dataset_m_trajs_def split_raw_three bind_err_def slice_to_def
      concat_dataset_def concatenate_rows_def concatenate_scalars_def)

lemma split_expert_raw_three:
  "dataset_split_expert raw_three 0 5 False
     = Inr (\<lparr>observations = [[0], [1]], actions = [[5], [6]], rewards = [1, 1],
            terminals = [False, False], timeouts = [False, False],
            next_observations = [[1], [2]]\<rparr>, None)"
  by (simp add: dataset_split_expert_def split_raw_three bind_err_def slice_to_def
      concat_dataset_def concatenate_rows_def concatenate_scalars_def)

text \<open>
  A dataset of one trajectory, asked for five trajectories: both functions return a
  dataset and raise nothing.
\<close>

theorem split_counts_counterexample:
  "trajectory_count raw_three False = 1 \<and>
   dataset_m_trajs raw_three 5 False
     = Inr \<lparr>observations = [[0], [1]], actions = [[5], [6]], rewards = [1, 1],
            terminals = [False, False], timeouts = [False, False],
            next_observations = [[1], [2]]\<rparr> \<and>
   dataset_split_expert raw_three 0 5 False
     = Inr (\<lparr>observations = [[0], [1]], actions = [[5], [6]], rewards = [1, 1],
            terminals = [False, False], timeouts = [False, False],
            next_observations = [[1], [2]]\<rparr>, None)"
  by (simp add: m_trajs_raw_three split_expert_raw_three trajectory_count_def split_raw_three)

theorem split_counts_are_clamped_witness:
  "int (trajectory_count raw_three False) \<le> 5 \<and>
   dataset_m_trajs raw_three 5 False = dataset_m_trajs raw_three 1 False \<and>
   dataset_split_expert raw_three 0 5 False = dataset_split_expert raw_three 0 1 False \<and>
   length (observations raw_three) = 3 \<and> length (actions raw_three) = 3 \<and>
   length (rewards raw_three) = 3 \<and> length (terminals raw_three) = 3 \<and>
   length (timeouts raw_three) = 3 \<and>
   dataset_m_trajs raw_three 5 False \<noteq> Inl IndexError \<and>
   dataset_split_expert raw_three 0 5 False \<noteq> Inl IndexError \<and>
   split_trajectories raw_three False
     = Inr ([[[0], [1]]], [[[1], [2]]], [[[5], [6]]], [[1, 1]], [[False, False]], [[False, False]]) \<and>
   dataset_m_trajs raw_three 5 False
     = Inr \<lparr>observations = [[0], [1]], actions = [[5], [6]], rewards = [1, 1],
            terminals = [False, False], timeouts = [False, False],
            next_observations = [[1], [2]]\<rparr> \<and>
   split_trajectories raw_trailing False
     = Inr ([[[0], [1]], []], [[[1], [2]], []], [[[5], [6]], []], [[1, 1], []],
            [[False, True], []], [[False, False], []]) \<and>
   dataset_m_trajs raw_trailing 5 False = Inl ValueError"
proof -
  have n: "int (trajectory_count raw_three False) = 1"
    by (simp add: trajectory_count_def split_raw_three)
  then have le: "int (trajectory_count raw_three False) \<le> 5" by simp
  have len: "length (observations raw_three) = 3 \<and> length (actions raw_three) = 3 \<and>
    length (rewards raw_three) = 3 \<and> length (terminals raw_three) = 3 \<and>
    length (timeouts raw_three) = 3"
    by (simp add: raw_three_def)
  note inst = split_counts_are_clamped [of raw_three False 5 5 0 3
      "[[[0], [1]]]" "[[[1], [2]]]" "[[[5], [6]]]" "[[1, 1]]" "[[False, False]]"
      "[[False, False]]"]
  note inst' = split_counts_are_clamped [of raw_trailing False 5 5 0 3
      "[[[0], [1]], []]" "[[[1], [2]], []]" "[[[5], [6]], []]" "[[1, 1], []]"
      "[[False, True], []]" "[[False, False], []]"]
  from inst le have 1: "dataset_m_trajs raw_three 5 False = dataset_m_trajs raw_three 1 False"
    and 2: "dataset_split_expert raw_three 0 5 False = dataset_split_expert raw_three 0 1 False"
    unfolding n by blast+
  from inst len have 3: "dataset_m_trajs raw_three 5 False \<noteq> Inl IndexError"
    and 4: "dataset_split_expert raw_three 0 5 False \<noteq> Inl IndexError"
    by blast+
  from inst split_raw_three have 5: "dataset_m_trajs raw_three 5 False
     = Inr \<lparr>observations = [[0], [1]], actions = [[5], [6]], rewards = [1, 1],
            terminals = [False, False], timeouts = [False, False],
            next_observations = [[1], [2]]\<rparr>"
    by simp
  from inst' split_raw_trailing have 6: "dataset_m_trajs raw_trailing 5 False = Inl ValueError"
    by simp
  from le 1 2 len 3 4 5 6 split_raw_three split_raw_trailing show ?thesis by blast
qed

end
